theory Spec2Isabelle
  imports Complex_Main "HOL-Library.Word"
begin

section \<open>Data model\<close>

text \<open>
  The operators of \<^verbatim>\<open>domainbed/datasets/ffcv_transforms.py\<close> work on raw
  \<^verbatim>\<open>uint8\<close> arrays of shape \<^verbatim>\<open>(H, W, 3)\<close> (one image) or
  \<^verbatim>\<open>(N, H, W, 3)\<close> (a batch). A pixel is its three channel bytes, an image is the list of
  its rows, a batch the list of its images.
\<close>

type_synonym uint8 = "8 word"
type_synonym pixel = "uint8 \<times> uint8 \<times> uint8"
type_synonym image = "pixel list list"
type_synonym batch = "image list"

datatype py_error = ValueError | TypeError | AssertionError | KeyError

text \<open>
  Arrays are passed by reference. A store maps a reference to the array it holds; a kernel
  that writes into an array returns the updated store.
\<close>

type_synonym ref = nat
type_synonym 'a store = "ref \<Rightarrow> 'a"

section \<open>Floating-point arithmetic\<close>

text \<open>
  The kernels compute in \<^verbatim>\<open>float64\<close>. Its values are the type \<open>'f\<close> and its operations
  the fields of a record that every function below takes as its first argument: whatever the
  machine's operations compute (rounding, infinities, NaN), the functions compute with
  them, in the order the source applies them.
  \<^item> \<open>fconst c\<close>: the value of the numeric literal or Python integer \<open>c\<close>;
  \<^item> \<open>of_uint8\<close>: the conversion of a byte in mixed arithmetic;
  \<^item> \<open>fadd\<close>, \<open>fsub\<close>, \<open>fmul\<close>, \<open>fdiv\<close>: \<^verbatim>\<open>+\<close>, \<^verbatim>\<open>-\<close>, \<^verbatim>\<open>*\<close>, \<^verbatim>\<open>/\<close>;
  \<^item> \<open>flt\<close>, \<open>fle\<close>, \<open>feq\<close>: \<^verbatim>\<open><\<close>, \<^verbatim>\<open><=\<close>, \<^verbatim>\<open>==\<close>; \<open>fle_inf x\<close>: \<^verbatim>\<open>x <= float("inf")\<close>;
  \<^item> \<open>fclip x lo hi\<close>: \<^verbatim>\<open>np.clip(x, lo, hi)\<close>; \<open>to_uint8\<close>: \<^verbatim>\<open>astype(np.uint8)\<close>;
  \<^item> \<open>fcos\<close>, \<open>fsin\<close>, \<open>fsqrt\<close>, \<open>fpi\<close>: \<^verbatim>\<open>np.cos\<close>, \<^verbatim>\<open>np.sin\<close>, \<^verbatim>\<open>np.sqrt\<close>, \<^verbatim>\<open>np.pi\<close>;
  \<^item> \<open>fmean\<close>: \<^verbatim>\<open>mean()\<close> of the elements of an array, in row-major order.
\<close>

record 'f float_ops =
  fconst :: "real \<Rightarrow> 'f"
  of_uint8 :: "uint8 \<Rightarrow> 'f"
  fadd :: "'f \<Rightarrow> 'f \<Rightarrow> 'f"
  fsub :: "'f \<Rightarrow> 'f \<Rightarrow> 'f"
  fmul :: "'f \<Rightarrow> 'f \<Rightarrow> 'f"
  fdiv :: "'f \<Rightarrow> 'f \<Rightarrow> 'f"
  flt :: "'f \<Rightarrow> 'f \<Rightarrow> bool"
  fle :: "'f \<Rightarrow> 'f \<Rightarrow> bool"
  feq :: "'f \<Rightarrow> 'f \<Rightarrow> bool"
  fle_inf :: "'f \<Rightarrow> bool"
  fclip :: "'f \<Rightarrow> 'f \<Rightarrow> 'f \<Rightarrow> 'f"
  to_uint8 :: "'f \<Rightarrow> uint8"
  fcos :: "'f \<Rightarrow> 'f"
  fsin :: "'f \<Rightarrow> 'f"
  fsqrt :: "'f \<Rightarrow> 'f"
  fpi :: 'f
  fmean :: "'f list \<Rightarrow> 'f"

type_synonym 'f fpixel = "'f \<times> 'f \<times> 'f"
type_synonym 'f fimage = "'f fpixel list list"

section \<open>Array arithmetic\<close>

text \<open>
  \<^verbatim>\<open>def blend(img1, img2, ratio): return (ratio*img1 + (1-ratio)*img2).clip(0, 255).astype(img1.dtype)\<close>,
  on one element and on whole arrays; a scalar \<^verbatim>\<open>img2\<close> is broadcast over the array first.
\<close>

definition blend1 :: "'f float_ops \<Rightarrow> uint8 \<Rightarrow> 'f \<Rightarrow> 'f \<Rightarrow> uint8" where
  "blend1 ops v1 v2 ratio =
     to_uint8 ops
       (fclip ops
          (fadd ops (fmul ops ratio (of_uint8 ops v1))
                    (fmul ops (fsub ops (fconst ops 1) ratio) v2))
          (fconst ops 0) (fconst ops 255))"

definition blend_px :: "'f float_ops \<Rightarrow> pixel \<Rightarrow> 'f fpixel \<Rightarrow> 'f \<Rightarrow> pixel" where
  "blend_px ops p q ratio =
     (case p of (r, g, b) \<Rightarrow> case q of (x, y, z) \<Rightarrow>
        (blend1 ops r x ratio, blend1 ops g y ratio, blend1 ops b z ratio))"

definition blend :: "'f float_ops \<Rightarrow> image \<Rightarrow> 'f fimage \<Rightarrow> 'f \<Rightarrow> image" where
  "blend ops img1 img2 ratio = map2 (map2 (\<lambda>p q. blend_px ops p q ratio)) img1 img2"

definition broadcast :: "'f \<Rightarrow> image \<Rightarrow> 'f fimage" where
  "broadcast c img = map (map (\<lambda>_. (c, c, c))) img"

definition to_float :: "'f float_ops \<Rightarrow> image \<Rightarrow> 'f fimage" where
  "to_float ops img =
     map (map (\<lambda>(r, g, b). (of_uint8 ops r, of_uint8 ops g, of_uint8 ops b))) img"

text \<open>\<^verbatim>\<open>0.2989 * r + 0.587 * g + 0.114 * b\<close>, the weighted sum both kernels use.\<close>

definition luma :: "'f float_ops \<Rightarrow> pixel \<Rightarrow> 'f" where
  "luma ops p = (case p of (r, g, b) \<Rightarrow>
     fadd ops
       (fadd ops (fmul ops (fconst ops 0.2989) (of_uint8 ops r))
                 (fmul ops (fconst ops 0.587) (of_uint8 ops g)))
       (fmul ops (fconst ops 0.114) (of_uint8 ops b)))"

text \<open>\<^verbatim>\<open>gray.mean()\<close> of an array of shape \<^verbatim>\<open>(H, W, 1)\<close>.\<close>

definition mean :: "'f float_ops \<Rightarrow> 'f list list \<Rightarrow> 'f" where
  "mean ops a = fmean ops (concat a)"

section \<open>ColorJitter\<close>

subsection \<open>Parameter checking\<close>

text \<open>
  The argument of \<^verbatim>\<open>_check_input\<close>: a number, a tuple or list of numbers (of any
  length), or a value of another type. Numbers are taken as floats.
\<close>

datatype 'f py_value = Number 'f | Seq "'f list" | Other

text \<open>
  \<^verbatim>\<open>bound\<close> is a pair whose upper end may be \<^verbatim>\<open>float("inf")\<close>, written \<open>None\<close>.
\<close>

definition le_bound :: "'f float_ops \<Rightarrow> 'f \<Rightarrow> 'f option \<Rightarrow> bool" where
  "le_bound ops x hi = (case hi of None \<Rightarrow> fle_inf ops x | Some h \<Rightarrow> fle ops x h)"

text \<open>Python's \<^verbatim>\<open>max(a, b)\<close>: \<^verbatim>\<open>b\<close> when \<^verbatim>\<open>b > a\<close>, else \<^verbatim>\<open>a\<close>.\<close>

definition py_max :: "'f float_ops \<Rightarrow> 'f \<Rightarrow> 'f \<Rightarrow> 'f" where
  "py_max ops a b = (if flt ops a b then b else a)"

definition check_input ::
  "'f float_ops \<Rightarrow> 'f py_value \<Rightarrow> 'f \<Rightarrow> 'f \<times> 'f option \<Rightarrow> bool
   \<Rightarrow> py_error + ('f \<times> 'f) option" where
  "check_input ops v center bound clip_first_on_zero =
     (let checked =
        (case v of
           Number x \<Rightarrow>
             if flt ops x (fconst ops 0) then Inl ValueError
             else let lo = fsub ops center x; hi = fadd ops center x
                  in Inr (if clip_first_on_zero then py_max ops lo (fconst ops 0) else lo, hi)
         | Seq [lo, hi] \<Rightarrow>
             if \<not> (fle ops (fst bound) lo \<and> fle ops lo hi \<and> le_bound ops hi (snd bound))
             then Inl ValueError
             else Inr (lo, hi)
         | _ \<Rightarrow> Inl TypeError)
      in case checked of
           Inl e \<Rightarrow> Inl e
         | Inr (lo, hi) \<Rightarrow>
             Inr (if feq ops lo hi \<and> feq ops hi center then None else Some (lo, hi)))"

record 'f ColorJitter =
  brightness :: "('f \<times> 'f) option"
  contrast :: "('f \<times> 'f) option"
  saturation :: "('f \<times> 'f) option"
  hue :: "('f \<times> 'f) option"

text \<open>\<^verbatim>\<open>ColorJitter.__init__\<close>: the four checks in order, the first exception ends it.\<close>

definition ColorJitter_init ::
  "'f float_ops \<Rightarrow> 'f py_value \<Rightarrow> 'f py_value \<Rightarrow> 'f py_value \<Rightarrow> 'f py_value
   \<Rightarrow> py_error + 'f ColorJitter" where
  "ColorJitter_init ops b c s h =
     (case check_input ops b (fconst ops 1) (fconst ops 0, None) True of
        Inl e \<Rightarrow> Inl e
      | Inr b' \<Rightarrow>
         (case check_input ops c (fconst ops 1) (fconst ops 0, None) True of
            Inl e \<Rightarrow> Inl e
          | Inr c' \<Rightarrow>
             (case check_input ops s (fconst ops 1) (fconst ops 0, None) True of
                Inl e \<Rightarrow> Inl e
              | Inr s' \<Rightarrow>
                 (case check_input ops h (fconst ops 0)
                         (fconst ops (- 0.5), Some (fconst ops 0.5)) False of
                    Inl e \<Rightarrow> Inl e
                  | Inr h' \<Rightarrow>
                      Inr \<lparr>brightness = b', contrast = c', saturation = s', hue = h'\<rparr>))))"

text \<open>The defaults \<^verbatim>\<open>brightness=0, contrast=0, saturation=0, hue=0\<close>.\<close>

definition ColorJitter_default :: "'f float_ops \<Rightarrow> py_error + 'f ColorJitter" where
  "ColorJitter_default ops =
     ColorJitter_init ops (Number (fconst ops 0)) (Number (fconst ops 0))
       (Number (fconst ops 0)) (Number (fconst ops 0))"

subsection \<open>The kernel\<close>

text \<open>
  The random choices made for one image: the permutation \<^verbatim>\<open>fn_idx\<close>, and for each call
  of \<^verbatim>\<open>np.random.uniform(lo, hi)\<close> what it returns, as a function of its two arguments.
  \<^verbatim>\<open>fn_idx\<close> holds every index once, so each of the four branches runs at most once per
  image and calls \<^verbatim>\<open>np.random.uniform\<close> at most once.
\<close>

record 'f jitter_draws =
  fn_idx :: "nat list"
  uniform_brightness :: "'f \<Rightarrow> 'f \<Rightarrow> 'f"
  uniform_contrast :: "'f \<Rightarrow> 'f \<Rightarrow> 'f"
  uniform_saturation :: "'f \<Rightarrow> 'f \<Rightarrow> 'f"
  uniform_hue :: "'f \<Rightarrow> 'f \<Rightarrow> 'f"

definition adjust_brightness :: "'f float_ops \<Rightarrow> image \<Rightarrow> 'f \<Rightarrow> image" where
  "adjust_brightness ops img ratio_brightness =
     blend ops img (broadcast (fconst ops 0) img) ratio_brightness"

definition adjust_contrast :: "'f float_ops \<Rightarrow> image \<Rightarrow> 'f \<Rightarrow> image" where
  "adjust_contrast ops img ratio_contrast =
     (let gray = map (map (luma ops)) img
      in blend ops img (broadcast (mean ops gray) img) ratio_contrast)"

definition adjust_saturation :: "'f float_ops \<Rightarrow> image \<Rightarrow> 'f \<Rightarrow> image" where
  "adjust_saturation ops img ratio_saturation =
     (let l_img = map (map (\<lambda>p. to_uint8 ops (luma ops p))) img;
          l_img3 = map (map (\<lambda>l. (l, l, l))) l_img
      in blend ops img (to_float ops l_img3) ratio_saturation)"

type_synonym 'f matrix3 = "'f fpixel \<times> 'f fpixel \<times> 'f fpixel"

text \<open>
  The nested list \<^verbatim>\<open>hue_rotation_matrix\<close>, entry by entry as the source writes it
  (\<^verbatim>\<open>1./3.\<close> is a division of two literals).
\<close>

definition hue_rotation_matrix :: "'f float_ops \<Rightarrow> 'f \<Rightarrow> 'f \<Rightarrow> 'f matrix3" where
  "hue_rotation_matrix ops cosA sinA =
     (let one = fconst ops 1; three = fconst ops 3;
          third = fdiv ops one three;
          t = fmul ops third (fsub ops one cosA);
          s = fmul ops (fsqrt ops third) sinA
      in ((fadd ops cosA (fdiv ops (fsub ops one cosA) three), fsub ops t s, fadd ops t s),
          (fadd ops t s, fadd ops cosA t, fsub ops t s),
          (fsub ops t s, fadd ops t s, fadd ops cosA t)))"

text \<open>The body of the two loops over \<^verbatim>\<open>row\<close> and \<^verbatim>\<open>col\<close>: one pixel of \<^verbatim>\<open>img\<close>.\<close>

definition rotate_px :: "'f float_ops \<Rightarrow> 'f matrix3 \<Rightarrow> 'f fpixel \<Rightarrow> 'f fpixel" where
  "rotate_px ops m p =
     (case m of ((m00, m01, m02), (m10, m11, m12), (m20, m21, m22)) \<Rightarrow>
      case p of (r, g, b) \<Rightarrow>
        (fadd ops (fadd ops (fmul ops r m00) (fmul ops g m01)) (fmul ops b m02),
         fadd ops (fadd ops (fmul ops r m10) (fmul ops g m11)) (fmul ops b m12),
         fadd ops (fadd ops (fmul ops r m20) (fmul ops g m21)) (fmul ops b m22)))"

definition adjust_hue :: "'f float_ops \<Rightarrow> image \<Rightarrow> 'f \<Rightarrow> image" where
  "adjust_hue ops im hue_factor =
     (let img = map (map (\<lambda>(r, g, b).
                  (fdiv ops r (fconst ops 255), fdiv ops g (fconst ops 255),
                   fdiv ops b (fconst ops 255)))) (to_float ops im);
          hue_factor_radians = fmul ops (fmul ops hue_factor (fconst ops 2)) (fpi ops);
          cosA = fcos ops hue_factor_radians;
          sinA = fsin ops hue_factor_radians;
          m = hue_rotation_matrix ops cosA sinA;
          img' = map (map (rotate_px ops m)) img
      in map (map (\<lambda>(r, g, b).
           (to_uint8 ops (fclip ops (fmul ops r (fconst ops 255)) (fconst ops 0) (fconst ops 255)),
            to_uint8 ops (fclip ops (fmul ops g (fconst ops 255)) (fconst ops 0) (fconst ops 255)),
            to_uint8 ops (fclip ops (fmul ops b (fconst ops 255)) (fconst ops 0) (fconst ops 255)))))
           img')"

text \<open>One pass of the inner loop, for the entry \<^verbatim>\<open>fn_idx[fn_id] = k\<close>.\<close>

definition jitter_step ::
  "'f float_ops \<Rightarrow> 'f ColorJitter \<Rightarrow> 'f jitter_draws \<Rightarrow> nat \<Rightarrow> image \<Rightarrow> image" where
  "jitter_step ops self d k img =
     (if k = 0 \<and> brightness self \<noteq> None then
        (case the (brightness self) of (brightness_min, brightness_max) \<Rightarrow>
           adjust_brightness ops img (uniform_brightness d brightness_min brightness_max))
      else if k = 1 \<and> contrast self \<noteq> None then
        (case the (contrast self) of (contrast_min, contrast_max) \<Rightarrow>
           adjust_contrast ops img (uniform_contrast d contrast_min contrast_max))
      else if k = 2 \<and> saturation self \<noteq> None then
        (case the (saturation self) of (saturation_min, saturation_max) \<Rightarrow>
           adjust_saturation ops img (uniform_saturation d saturation_min saturation_max))
      else if k = 3 \<and> hue self \<noteq> None then
        (case the (hue self) of (hue_min, hue_max) \<Rightarrow>
           adjust_hue ops img (uniform_hue d hue_min hue_max))
      else img)"

definition jitter_image ::
  "'f float_ops \<Rightarrow> 'f ColorJitter \<Rightarrow> 'f jitter_draws \<Rightarrow> image \<Rightarrow> image" where
  "jitter_image ops self d img = fold (jitter_step ops self d) (fn_idx d) img"

text \<open>
  \<^verbatim>\<open>color_jitter(images, *_)\<close>: image \<^verbatim>\<open>i\<close> of the batch is overwritten with its jittered
  version, and the reference it was called with is returned.
\<close>

definition color_jitter_batch ::
  "'f float_ops \<Rightarrow> 'f ColorJitter \<Rightarrow> (nat \<Rightarrow> 'f jitter_draws) \<Rightarrow> batch \<Rightarrow> batch" where
  "color_jitter_batch ops self draws images =
     map (\<lambda>i. jitter_image ops self (draws i) (images ! i)) [0..<length images]"

definition color_jitter ::
  "'f float_ops \<Rightarrow> 'f ColorJitter \<Rightarrow> (nat \<Rightarrow> 'f jitter_draws) \<Rightarrow> batch store \<Rightarrow> ref
   \<Rightarrow> batch store \<times> ref" where
  "color_jitter ops self draws \<sigma> images =
     (\<sigma>(images := color_jitter_batch ops self draws (\<sigma> images)), images)"

text \<open>
  What \<^verbatim>\<open>generate_code\<close> returns: the function, and its attribute \<^verbatim>\<open>is_parallel\<close>
  (\<open>None\<close> when the attribute was never set).
\<close>

record 'f callable =
  run :: 'f
  is_parallel :: "bool option"

definition ColorJitter_generate_code ::
  "'f float_ops \<Rightarrow> 'f ColorJitter \<Rightarrow>
   ((nat \<Rightarrow> 'f jitter_draws) \<Rightarrow> batch store \<Rightarrow> ref \<Rightarrow> batch store \<times> ref) callable" where
  "ColorJitter_generate_code ops self = \<lparr>run = color_jitter ops self, is_parallel = Some True\<rparr>"

section \<open>Pipeline state and allocation queries\<close>

text \<open>
  The host framework's \<^verbatim>\<open>State\<close> and \<^verbatim>\<open>AllocationQuery\<close> dataclasses, with the fields
  the operators read and write. Any further field of a state is in the record's extension.
  A dtype is a NumPy dtype or a torch dtype.
\<close>

datatype array_dtype =
  np_uint8 | np_float16 | np_float32 | np_float64 | torch_uint8 | torch_float16 | torch_float32

definition is_torch_dtype :: "array_dtype \<Rightarrow> bool" where
  "is_torch_dtype t = (t = torch_uint8 \<or> t = torch_float16 \<or> t = torch_float32)"

record State =
  jit_mode :: bool
  device :: string
  shape :: "int list"
  dtype :: array_dtype

record AllocationQuery =
  aq_shape :: "int list"
  aq_dtype :: array_dtype
  aq_device :: "string option"

text \<open>
  A \<^verbatim>\<open>State\<close> checks itself when it is built (\<^verbatim>\<open>__post_init__\<close>): in JIT mode the device
  must be the CPU and the dtype must not be a torch dtype, or it raises AssertionError.
  \<^verbatim>\<open>dataclasses.replace\<close> builds a new \<^verbatim>\<open>State\<close> from the changed fields, so the check
  runs again on the result.
\<close>

definition State_post_init :: "'a State_scheme \<Rightarrow> py_error + 'a State_scheme" where
  "State_post_init s =
     (if jit_mode s \<and> device s \<noteq> ''cpu'' then Inl AssertionError
      else if jit_mode s \<and> is_torch_dtype (dtype s) then Inl AssertionError
      else Inr s)"

text \<open>
  \<^verbatim>\<open>return (replace(previous_state, jit_mode=True), AllocationQuery(...))\<close>: the state is
  replaced first, so a failing check leaves no allocation query.
\<close>

definition ColorJitter_declare_state_and_memory ::
  "'f ColorJitter \<Rightarrow> 'a State_scheme \<Rightarrow> py_error + 'a State_scheme \<times> AllocationQuery" where
  "ColorJitter_declare_state_and_memory self previous_state =
     (case State_post_init (previous_state\<lparr>jit_mode := True\<rparr>) of
        Inl e \<Rightarrow> Inl e
      | Inr new_state \<Rightarrow>
          Inr (new_state,
               \<lparr>aq_shape = shape previous_state, aq_dtype = dtype previous_state,
                aq_device = None\<rparr>))"

section \<open>RandomGrayscale\<close>

record 'f RandomGrayscale =
  RandomGrayscale_p :: 'f

definition RandomGrayscale_init :: "'f \<Rightarrow> 'f RandomGrayscale" where
  "RandomGrayscale_init p = \<lparr>RandomGrayscale_p = p\<rparr>"

text \<open>The body of \<^verbatim>\<open>if apply_grayscale[i]\<close>: the new contents of image \<^verbatim>\<open>i\<close>.\<close>

definition to_grayscale :: "'f float_ops \<Rightarrow> image \<Rightarrow> image" where
  "to_grayscale ops img =
     (let l_img = map (map (\<lambda>px. to_uint8 ops (luma ops px))) img
      in map (map (\<lambda>l. (l, l, l))) l_img)"

text \<open>
  \<^verbatim>\<open>rgb_to_grayscale(images, *_)\<close>; \<open>rand i\<close> is entry \<^verbatim>\<open>i\<close> of
  \<^verbatim>\<open>np.random.rand(images.shape[0])\<close>.
\<close>

definition rgb_to_grayscale_batch ::
  "'f float_ops \<Rightarrow> 'f \<Rightarrow> (nat \<Rightarrow> 'f) \<Rightarrow> batch \<Rightarrow> batch" where
  "rgb_to_grayscale_batch ops p rand images =
     map (\<lambda>i. if flt ops (rand i) p then to_grayscale ops (images ! i) else images ! i)
       [0..<length images]"

definition rgb_to_grayscale ::
  "'f float_ops \<Rightarrow> 'f \<Rightarrow> (nat \<Rightarrow> 'f) \<Rightarrow> batch store \<Rightarrow> ref \<Rightarrow> batch store \<times> ref" where
  "rgb_to_grayscale ops p rand \<sigma> images =
     (\<sigma>(images := rgb_to_grayscale_batch ops p rand (\<sigma> images)), images)"

definition RandomGrayscale_generate_code ::
  "'f float_ops \<Rightarrow> 'f RandomGrayscale \<Rightarrow>
   ((nat \<Rightarrow> 'f) \<Rightarrow> batch store \<Rightarrow> ref \<Rightarrow> batch store \<times> ref) callable" where
  "RandomGrayscale_generate_code ops self =
     \<lparr>run = rgb_to_grayscale ops (RandomGrayscale_p self), is_parallel = Some True\<rparr>"

definition RandomGrayscale_declare_state_and_memory ::
  "'f RandomGrayscale \<Rightarrow> 'a State_scheme \<Rightarrow> py_error + 'a State_scheme \<times> AllocationQuery" where
  "RandomGrayscale_declare_state_and_memory self previous_state =
     (case State_post_init (previous_state\<lparr>jit_mode := True\<rparr>) of
        Inl e \<Rightarrow> Inl e
      | Inr new_state \<Rightarrow>
          Inr (new_state,
               \<lparr>aq_shape = shape previous_state, aq_dtype = dtype previous_state,
                aq_device = None\<rparr>))"

section \<open>ResizedCrop\<close>

record ResizedCrop =
  ResizedCrop_ratio :: real
  ResizedCrop_size :: int

definition ResizedCrop_init :: "int \<Rightarrow> real \<Rightarrow> ResizedCrop" where
  "ResizedCrop_init sz ratio = \<lparr>ResizedCrop_ratio = ratio, ResizedCrop_size = sz\<rparr>"

text \<open>
  \<^verbatim>\<open>fast_crop.get_center_crop\<close> and \<^verbatim>\<open>fast_crop.resize_crop\<close> belong to the host
  framework and are parameters here: \<open>get_center_crop height width ratio\<close> gives
  \<^verbatim>\<open>(i, j, h, w)\<close>, and \<open>resize_crop source start_row end_row start_col end_col destination\<close>
  gives what the call leaves in the destination array.
\<close>

type_synonym get_center_crop_t = "nat \<Rightarrow> nat \<Rightarrow> real \<Rightarrow> int \<times> int \<times> int \<times> int"
type_synonym resize_crop_t = "image \<Rightarrow> int \<Rightarrow> int \<Rightarrow> int \<Rightarrow> int \<Rightarrow> image \<Rightarrow> image"

text \<open>
  \<^verbatim>\<open>im.shape[0]\<close> and \<^verbatim>\<open>im.shape[1]\<close>. An image is the list of its rows, so one
  without rows has width 0 here.
\<close>

definition height :: "image \<Rightarrow> nat" where
  "height im = length im"

definition width :: "image \<Rightarrow> nat" where
  "width im = (case im of [] \<Rightarrow> 0 | row # _ \<Rightarrow> length row)"

definition resized_crop ::
  "get_center_crop_t \<Rightarrow> resize_crop_t \<Rightarrow> real \<Rightarrow> image store \<Rightarrow> ref \<Rightarrow> ref \<Rightarrow> image store \<times> ref" where
  "resized_crop get_center_crop resize_crop ratio \<sigma> im dst =
     (case get_center_crop (height (\<sigma> im)) (width (\<sigma> im)) ratio of (i, j, h, w) \<Rightarrow>
        (\<sigma>(dst := resize_crop (\<sigma> im) i (i + h) j (j + w) (\<sigma> dst)), dst))"

definition ResizedCrop_generate_code ::
  "get_center_crop_t \<Rightarrow> resize_crop_t \<Rightarrow> ResizedCrop \<Rightarrow>
   (image store \<Rightarrow> ref \<Rightarrow> ref \<Rightarrow> image store \<times> ref) callable" where
  "ResizedCrop_generate_code get_center_crop resize_crop self =
     \<lparr>run = resized_crop get_center_crop resize_crop (ResizedCrop_ratio self), is_parallel = None\<rparr>"

text \<open>
  \<^verbatim>\<open>assert previous_state.jit_mode\<close>, then the state with its shape replaced (checked again
  as it is built) and the allocation query.
\<close>

definition ResizedCrop_declare_state_and_memory ::
  "ResizedCrop \<Rightarrow> 'a State_scheme \<Rightarrow> py_error + 'a State_scheme \<times> AllocationQuery" where
  "ResizedCrop_declare_state_and_memory self previous_state =
     (if \<not> jit_mode previous_state then Inl AssertionError
      else
        (case State_post_init
                (previous_state\<lparr>shape := [ResizedCrop_size self, ResizedCrop_size self, 3]\<rparr>) of
           Inl e \<Rightarrow> Inl e
         | Inr new_state \<Rightarrow>
             Inr (new_state,
                  \<lparr>aq_shape = [ResizedCrop_size self, ResizedCrop_size self, 3],
                   aq_dtype = np_uint8, aq_device = None\<rparr>)))"

section \<open>The dataset writer script\<close>

text \<open>
  \<^verbatim>\<open>write(args)\<close> of \<^verbatim>\<open>ffcv_writers.py\<close>, here \<open>write_betons\<close>, prints and calls the host framework's \<^verbatim>\<open>DatasetWriter\<close>; the
  model returns these effects in order. A multi-environment dataset has the two parallel lists
  \<^verbatim>\<open>environments\<close> and \<^verbatim>\<open>datasets\<close>; \<^verbatim>\<open>vars(datasets)\<close>, the table of dataset classes, is a
  parameter.
\<close>

record 'a indexed_dataset =
  ds_root :: string
  samples :: "'a list"

record 'a multi_dataset =
  environments :: "string list"
  datasets :: "'a indexed_dataset list"

datatype field = RGBImageField | IntField

text \<open>\<^verbatim>\<open>Path(root) / name\<close>.\<close>

datatype path = Path string | Join path string

record DatasetWriter =
  fname :: path
  writer_fields :: "(string \<times> field) list"

datatype 'a effect = Print string | From_indexed_dataset DatasetWriter "'a indexed_dataset"

record args =
  dataset :: string
  data_dir :: string

definition write_env :: "string \<times> 'a indexed_dataset \<Rightarrow> 'a effect list" where
  "write_env = (\<lambda>(env, ds).
     [Print (''Writting '' @ env @ '' beton file''),
      From_indexed_dataset
        \<lparr>fname = Join (Path (ds_root ds)) (env @ ''.beton''),
         writer_fields = [(''image'', RGBImageField), (''label'', IntField)]\<rparr> ds])"

definition write_betons ::
  "(string \<rightharpoonup> (string \<Rightarrow> 'a multi_dataset)) \<Rightarrow> args \<Rightarrow> py_error + 'a effect list" where
  "write_betons classes a =
     (case classes (dataset a) of
        None \<Rightarrow> Inl KeyError
      | Some cls \<Rightarrow>
          (let d = cls (data_dir a)
           in Inr (Print (''Writting beton files for '' @ dataset a @ '' dataset'')
                   # concat (map write_env (zip (environments d) (datasets d))))))"

text \<open>The calls of \<^verbatim>\<open>from_indexed_dataset\<close> among the effects, in order.\<close>

fun writer_calls :: "'a effect list \<Rightarrow> (DatasetWriter \<times> 'a indexed_dataset) list" where
  "writer_calls [] = []"
| "writer_calls (Print _ # es) = writer_calls es"
| "writer_calls (From_indexed_dataset w ds # es) = (w, ds) # writer_calls es"

section \<open>Notions of the specification\<close>

text \<open>
  A color-space blend of an image with a second value per pixel:
  \<^verbatim>\<open>clip(ratio*img + (1-ratio)*other, 0, 255)\<close> cast to \<^verbatim>\<open>uint8\<close>, on every channel.
\<close>

definition color_blend :: "'f float_ops \<Rightarrow> image \<Rightarrow> (pixel \<Rightarrow> 'f) \<Rightarrow> 'f \<Rightarrow> image" where
  "color_blend ops img other ratio =
     map (map (\<lambda>px. case px of (r, g, b) \<Rightarrow>
       (to_uint8 ops (fclip ops
          (fadd ops (fmul ops ratio (of_uint8 ops r))
                    (fmul ops (fsub ops (fconst ops 1) ratio) (other px)))
          (fconst ops 0) (fconst ops 255)),
        to_uint8 ops (fclip ops
          (fadd ops (fmul ops ratio (of_uint8 ops g))
                    (fmul ops (fsub ops (fconst ops 1) ratio) (other px)))
          (fconst ops 0) (fconst ops 255)),
        to_uint8 ops (fclip ops
          (fadd ops (fmul ops ratio (of_uint8 ops b))
                    (fmul ops (fsub ops (fconst ops 1) ratio) (other px)))
          (fconst ops 0) (fconst ops 255))))) img"

text \<open>The scalar mean of the grayscale image.\<close>

definition gray_mean :: "'f float_ops \<Rightarrow> image \<Rightarrow> 'f" where
  "gray_mean ops img = fmean ops (map (luma ops) (concat img))"

text \<open>
  The product of a matrix with a pixel (each entry of the row multiplies its channel, summed
  from the left), and the hue jitter as the specification words it: scale to \<open>[0, 1]\<close>,
  multiply every pixel by the matrix built from the angle \<^verbatim>\<open>hue_factor * 2 * pi\<close>, scale by
  255, clip, store as \<^verbatim>\<open>uint8\<close>.
\<close>

definition dot3 :: "'f float_ops \<Rightarrow> 'f fpixel \<Rightarrow> 'f fpixel \<Rightarrow> 'f" where
  "dot3 ops row v =
     (case row of (a, b, c) \<Rightarrow> case v of (x, y, z) \<Rightarrow>
        fadd ops (fadd ops (fmul ops x a) (fmul ops y b)) (fmul ops z c))"

definition mat_vec :: "'f float_ops \<Rightarrow> 'f matrix3 \<Rightarrow> 'f fpixel \<Rightarrow> 'f fpixel" where
  "mat_vec ops m v =
     (case m of (row0, row1, row2) \<Rightarrow> (dot3 ops row0 v, dot3 ops row1 v, dot3 ops row2 v))"

definition hue_angle :: "'f float_ops \<Rightarrow> 'f \<Rightarrow> 'f" where
  "hue_angle ops hue_factor = fmul ops (fmul ops hue_factor (fconst ops 2)) (fpi ops)"

definition hue_shift :: "'f float_ops \<Rightarrow> image \<Rightarrow> 'f \<Rightarrow> image" where
  "hue_shift ops img hue_factor =
     map (map (\<lambda>px. case px of (r, g, b) \<Rightarrow>
       (case mat_vec ops
               (hue_rotation_matrix ops (fcos ops (hue_angle ops hue_factor))
                                        (fsin ops (hue_angle ops hue_factor)))
               (fdiv ops (of_uint8 ops r) (fconst ops 255),
                fdiv ops (of_uint8 ops g) (fconst ops 255),
                fdiv ops (of_uint8 ops b) (fconst ops 255)) of
          (x, y, z) \<Rightarrow>
            (to_uint8 ops (fclip ops (fmul ops x (fconst ops 255)) (fconst ops 0) (fconst ops 255)),
             to_uint8 ops (fclip ops (fmul ops y (fconst ops 255)) (fconst ops 0) (fconst ops 255)),
             to_uint8 ops (fclip ops (fmul ops z (fconst ops 255)) (fconst ops 0) (fconst ops 255))))))
       img"

text \<open>
  What one entry \<open>k\<close> of \<^verbatim>\<open>fn_idx\<close> does to an image: entry 0, 1 or 2 blends for
  brightness, contrast or saturation and entry 3 shifts the hue, each only when its parameter
  is set, with the value \<^verbatim>\<open>np.random.uniform\<close> returned for the configured range.
\<close>

definition jitter_spec ::
  "'f float_ops \<Rightarrow> 'f ColorJitter \<Rightarrow> 'f jitter_draws \<Rightarrow> nat \<Rightarrow> image \<Rightarrow> image" where
  "jitter_spec ops self d k img =
     (if k = 0 then
        (case brightness self of
           None \<Rightarrow> img
         | Some (lo, hi) \<Rightarrow>
             color_blend ops img (\<lambda>_. fconst ops 0) (uniform_brightness d lo hi))
      else if k = 1 then
        (case contrast self of
           None \<Rightarrow> img
         | Some (lo, hi) \<Rightarrow>
             color_blend ops img (\<lambda>_. gray_mean ops img) (uniform_contrast d lo hi))
      else if k = 2 then
        (case saturation self of
           None \<Rightarrow> img
         | Some (lo, hi) \<Rightarrow>
             color_blend ops img (\<lambda>px. of_uint8 ops (to_uint8 ops (luma ops px)))
               (uniform_saturation d lo hi))
      else if k = 3 then
        (case hue self of
           None \<Rightarrow> img
         | Some (lo, hi) \<Rightarrow> hue_shift ops img (uniform_hue d lo hi))
      else img)"

text \<open>
  The range a parameter of ColorJitter stands for: a number \<open>x\<close> for
  \<^verbatim>\<open>[center - x, center + x]\<close>, its first end raised to 0 where the check clips it; a pair
  for itself.
\<close>

definition normalized_range ::
  "'f float_ops \<Rightarrow> 'f py_value \<Rightarrow> 'f \<Rightarrow> bool \<Rightarrow> ('f \<times> 'f) option" where
  "normalized_range ops v center clip_first_on_zero =
     (case v of
        Number x \<Rightarrow>
          Some (if clip_first_on_zero then py_max ops (fsub ops center x) (fconst ops 0)
                else fsub ops center x,
                fadd ops center x)
      | Seq [lo, hi] \<Rightarrow> Some (lo, hi)
      | _ \<Rightarrow> None)"

text \<open>The grayscale conversion: every channel becomes the luma value cast to \<^verbatim>\<open>uint8\<close>.\<close>

definition gray_image :: "'f float_ops \<Rightarrow> image \<Rightarrow> image" where
  "gray_image ops img =
     map (map (\<lambda>px. (to_uint8 ops (luma ops px), to_uint8 ops (luma ops px),
                      to_uint8 ops (luma ops px)))) img"

text \<open>The shape of a batch: for every image, the lengths of its rows.\<close>

definition batch_shape :: "batch \<Rightarrow> nat list list" where
  "batch_shape images = map (map length) images"

text \<open>Every channel of every pixel of a batch is a value of \<open>[0, 255]\<close>.\<close>

definition pixels_in_range :: "batch \<Rightarrow> bool" where
  "pixels_in_range images =
     list_all (list_all (list_all (\<lambda>(r, g, b). unat r \<le> 255 \<and> unat g \<le> 255 \<and> unat b \<le> 255))) images"

section \<open>Exact arithmetic\<close>

text \<open>
  The operations of the real numbers, without rounding, as one instance of the float
  operations: the cast to \<^verbatim>\<open>uint8\<close> drops the fraction and reduces modulo 256. It serves to
  run the kernels on concrete inputs and to read their formulas as mathematics.
\<close>

definition exact :: "real float_ops" where
  "exact =
     \<lparr>fconst = (\<lambda>c. c),
      of_uint8 = (\<lambda>v. real (unat v)),
      fadd = (+), fsub = (-), fmul = (*), fdiv = (/),
      flt = (<), fle = (\<le>), feq = (=),
      fle_inf = (\<lambda>_. True),
      fclip = (\<lambda>x lo hi. min (max x lo) hi),
      to_uint8 = (\<lambda>x. word_of_int (if 0 \<le> x then \<lfloor>x\<rfloor> else \<lceil>x\<rceil>)),
      fcos = cos, fsin = sin, fsqrt = sqrt, fpi = pi,
      fmean = (\<lambda>xs. sum_list xs / real (length xs))\<rparr>"

text \<open>\<^verbatim>\<open>np.random.uniform(lo, hi)\<close> for the sample \<open>u\<close> of \<open>[0, 1)\<close>, in exact arithmetic.\<close>

definition uniform_at :: "real \<Rightarrow> real \<Rightarrow> real \<Rightarrow> real" where
  "uniform_at u lo hi = lo + (hi - lo) * u"

text \<open>
  The rotation of RGB space by an angle about a unit axis (Rodrigues' formula) and the
  rotation about the gray axis \<open>(1, 1, 1) / sqrt 3\<close>.
\<close>

definition axis_rotation :: "real fpixel \<Rightarrow> real \<Rightarrow> real matrix3" where
  "axis_rotation k \<theta> =
     (case k of (kx, ky, kz) \<Rightarrow>
       ((cos \<theta> + (1 - cos \<theta>) * kx * kx,
         (1 - cos \<theta>) * kx * ky - sin \<theta> * kz,
         (1 - cos \<theta>) * kx * kz + sin \<theta> * ky),
        ((1 - cos \<theta>) * ky * kx + sin \<theta> * kz,
         cos \<theta> + (1 - cos \<theta>) * ky * ky,
         (1 - cos \<theta>) * ky * kz - sin \<theta> * kx),
        ((1 - cos \<theta>) * kz * kx - sin \<theta> * ky,
         (1 - cos \<theta>) * kz * ky + sin \<theta> * kx,
         cos \<theta> + (1 - cos \<theta>) * kz * kz)))"

definition gray_axis :: "real fpixel" where
  "gray_axis = (1 / sqrt 3, 1 / sqrt 3, 1 / sqrt 3)"

definition hue_rotation :: "real \<Rightarrow> real matrix3" where
  "hue_rotation \<theta> = axis_rotation gray_axis \<theta>"

text \<open>
  An instance of the two parameters of \<open>resized_crop\<close>, for running it on concrete arrays:
  the centred square window of side \<open>\<lfloor>ratio * min height width\<rfloor>\<close>, and a
  nearest-neighbour resize of the window to the shape of the destination.
\<close>

definition center_window :: get_center_crop_t where
  "center_window h w ratio =
     (let s = min h w; c = \<lfloor>ratio * real s\<rfloor>
      in ((int h - c) div 2, (int w - c) div 2, c, c))"

definition nearest_resize :: resize_crop_t where
  "nearest_resize source start_row end_row start_col end_col destination =
     map (\<lambda>r. map (\<lambda>c.
           source ! nat (start_row + int r * (end_row - start_row) div int (height destination))
                  ! nat (start_col + int c * (end_col - start_col) div int (width destination)))
         [0..<width destination]) [0..<height destination]"

section \<open>State threading and allocation\<close>

lemma State_post_init_jit:
  "State_post_init (s\<lparr>jit_mode := True\<rparr>)
     = (if device s = ''cpu'' \<and> \<not> is_torch_dtype (dtype s) then Inr (s\<lparr>jit_mode := True\<rparr>)
        else Inl AssertionError)"
  by (simp add: State_post_init_def)

lemma State_post_init_shape:
  "jit_mode s \<Longrightarrow>
   State_post_init (s\<lparr>shape := sh\<rparr>)
     = (if device s = ''cpu'' \<and> \<not> is_torch_dtype (dtype s) then Inr (s\<lparr>shape := sh\<rparr>)
        else Inl AssertionError)"
  by (simp add: State_post_init_def)

text \<open>
  C5 (as amended). On a previous state whose device is the CPU and whose dtype is not a torch
  dtype, \<^verbatim>\<open>declare_state_and_memory\<close> of ColorJitter and of RandomGrayscale returns the
  previous state with \<^verbatim>\<open>jit_mode\<close> set and every other field as it was; on any other
  previous state building the new state raises AssertionError. That of ResizedCrop returns the
  previous state with \<^verbatim>\<open>shape\<close> replaced by \<^verbatim>\<open>(size, size, 3)\<close> and every other field as
  it was when the previous state has \<^verbatim>\<open>jit_mode\<close> set, the CPU as device and no torch dtype;
  otherwise it raises AssertionError and no state is returned.
\<close>

theorem declare_state_threading:
  fixes s :: "'a State_scheme"
  shows
  "(device s = ''cpu'' \<and> \<not> is_torch_dtype (dtype s) \<longrightarrow>
      (\<exists>s' q. ColorJitter_declare_state_and_memory cj s = Inr (s', q)
         \<and> jit_mode s' \<and> device s' = device s \<and> shape s' = shape s \<and> dtype s' = dtype s
         \<and> State.more s' = State.more s) \<and>
      (\<exists>s' q. RandomGrayscale_declare_state_and_memory rg s = Inr (s', q)
         \<and> jit_mode s' \<and> device s' = device s \<and> shape s' = shape s \<and> dtype s' = dtype s
         \<and> State.more s' = State.more s)) \<and>
   (device s \<noteq> ''cpu'' \<or> is_torch_dtype (dtype s) \<longrightarrow>
      ColorJitter_declare_state_and_memory cj s = Inl AssertionError \<and>
      RandomGrayscale_declare_state_and_memory rg s = Inl AssertionError) \<and>
   (jit_mode s \<and> device s = ''cpu'' \<and> \<not> is_torch_dtype (dtype s) \<longrightarrow>
      (\<exists>s' q. ResizedCrop_declare_state_and_memory rc s = Inr (s', q)
         \<and> shape s' = [ResizedCrop_size rc, ResizedCrop_size rc, 3]
         \<and> jit_mode s' = jit_mode s \<and> device s' = device s \<and> dtype s' = dtype s
         \<and> State.more s' = State.more s)) \<and>
   (\<not> jit_mode s \<or> device s \<noteq> ''cpu'' \<or> is_torch_dtype (dtype s) \<longrightarrow>
      ResizedCrop_declare_state_and_memory rc s = Inl AssertionError)"
  by (auto simp add: ColorJitter_declare_state_and_memory_def
      RandomGrayscale_declare_state_and_memory_def ResizedCrop_declare_state_and_memory_def
      State_post_init_jit State_post_init_shape)

theorem declare_state_threading_witness:
  "map_sum id fst (ColorJitter_declare_state_and_memory
        \<lparr>brightness = Some (0.7 :: real, 1.3), contrast = None, saturation = None, hue = None\<rparr>
        \<lparr>jit_mode = False, device = ''cpu'', shape = [32, 32, 3], dtype = np_uint8\<rparr>)
     = Inr \<lparr>jit_mode = True, device = ''cpu'', shape = [32, 32, 3], dtype = np_uint8\<rparr>
   \<and> map_sum id fst (RandomGrayscale_declare_state_and_memory (RandomGrayscale_init (0.1 :: real))
        \<lparr>jit_mode = True, device = ''cpu'', shape = [500, 375, 3], dtype = np_uint8\<rparr>)
     = Inr \<lparr>jit_mode = True, device = ''cpu'', shape = [500, 375, 3], dtype = np_uint8\<rparr>
   \<and> map_sum id fst (ResizedCrop_declare_state_and_memory (ResizedCrop_init 224 1)
        \<lparr>jit_mode = True, device = ''cpu'', shape = [500, 375, 3], dtype = np_uint8\<rparr>)
     = Inr \<lparr>jit_mode = True, device = ''cpu'', shape = [224, 224, 3], dtype = np_uint8\<rparr>
   \<and> RandomGrayscale_declare_state_and_memory (RandomGrayscale_init (0.1 :: real))
        \<lparr>jit_mode = False, device = ''cuda:0'', shape = [3, 32, 32], dtype = torch_float32\<rparr>
     = Inl AssertionError
   \<and> ResizedCrop_declare_state_and_memory (ResizedCrop_init 224 1)
        \<lparr>jit_mode = False, device = ''cpu'', shape = [32, 32, 3], dtype = np_uint8\<rparr>
     = Inl AssertionError"
proof -
  let ?cj = "\<lparr>brightness = Some (0.7 :: real, 1.3), contrast = None, saturation = None,
              hue = None\<rparr>"
  let ?rg = "RandomGrayscale_init (0.1 :: real)"
  let ?rc = "ResizedCrop_init 224 1"
  note a = declare_state_threading
    [of "\<lparr>jit_mode = False, device = ''cpu'', shape = [32, 32, 3], dtype = np_uint8\<rparr>"
        ?cj ?rg ?rc]
  note b = declare_state_threading
    [of "\<lparr>jit_mode = True, device = ''cpu'', shape = [500, 375, 3], dtype = np_uint8\<rparr>"
        ?cj ?rg ?rc]
  note c = declare_state_threading
    [of "\<lparr>jit_mode = False, device = ''cuda:0'', shape = [3, 32, 32], dtype = torch_float32\<rparr>"
        ?cj ?rg ?rc]
  have 1: "map_sum id fst (ColorJitter_declare_state_and_memory ?cj
        \<lparr>jit_mode = False, device = ''cpu'', shape = [32, 32, 3], dtype = np_uint8\<rparr>)
     = Inr \<lparr>jit_mode = True, device = ''cpu'', shape = [32, 32, 3], dtype = np_uint8\<rparr>"
    using a by (auto simp add: is_torch_dtype_def)
  have 2: "map_sum id fst (RandomGrayscale_declare_state_and_memory ?rg
        \<lparr>jit_mode = True, device = ''cpu'', shape = [500, 375, 3], dtype = np_uint8\<rparr>)
     = Inr \<lparr>jit_mode = True, device = ''cpu'', shape = [500, 375, 3], dtype = np_uint8\<rparr>"
    using b by (auto simp add: is_torch_dtype_def)
  have 3: "map_sum id fst (ResizedCrop_declare_state_and_memory ?rc
        \<lparr>jit_mode = True, device = ''cpu'', shape = [500, 375, 3], dtype = np_uint8\<rparr>)
     = Inr \<lparr>jit_mode = True, device = ''cpu'', shape = [224, 224, 3], dtype = np_uint8\<rparr>"
    using b by (auto simp add: is_torch_dtype_def ResizedCrop_init_def)
  have 4: "RandomGrayscale_declare_state_and_memory ?rg
        \<lparr>jit_mode = False, device = ''cuda:0'', shape = [3, 32, 32], dtype = torch_float32\<rparr>
     = Inl AssertionError"
    using c by simp
  have 5: "ResizedCrop_declare_state_and_memory ?rc
        \<lparr>jit_mode = False, device = ''cpu'', shape = [32, 32, 3], dtype = np_uint8\<rparr>
     = Inl AssertionError"
    using a by simp
  from 1 2 3 4 5 show ?thesis
    by blast
qed

text \<open>
  The claim as it was stated fails on a previous state on another device, where ColorJitter
  raises while building the new state, and on a previous state whose \<^verbatim>\<open>jit_mode\<close> is not
  set, where the assertion of ResizedCrop fails: neither returns a state.
\<close>

theorem declare_state_counterexample:
  "ColorJitter_declare_state_and_memory
     \<lparr>brightness = Some (0.7 :: real, 1.3), contrast = None, saturation = None, hue = None\<rparr>
     \<lparr>jit_mode = False, device = ''cuda:0'', shape = [3, 224, 224], dtype = torch_float32\<rparr>
   = Inl AssertionError
   \<and> ResizedCrop_declare_state_and_memory (ResizedCrop_init 224 1)
     \<lparr>jit_mode = False, device = ''cpu'', shape = [500, 375, 3], dtype = np_uint8\<rparr>
   = Inl AssertionError"
  by (simp add: ColorJitter_declare_state_and_memory_def ResizedCrop_declare_state_and_memory_def
      State_post_init_def)

text \<open>
  C6 (as amended). Each \<^verbatim>\<open>declare_state_and_memory\<close> that returns answers with one allocation
  query: ColorJitter and RandomGrayscale, on a previous state on the CPU without a torch dtype,
  ask for the previous state's shape and dtype; ResizedCrop, on such a state with
  \<^verbatim>\<open>jit_mode\<close> set, asks for shape \<^verbatim>\<open>(size, size, 3)\<close> and dtype \<^verbatim>\<open>uint8\<close>. On any other
  previous state the operator raises AssertionError and asks for nothing.
\<close>

theorem declare_allocation:
  fixes s :: "'a State_scheme"
  shows
  "(device s = ''cpu'' \<and> \<not> is_torch_dtype (dtype s) \<longrightarrow>
      map_sum id snd (ColorJitter_declare_state_and_memory cj s)
        = Inr \<lparr>aq_shape = shape s, aq_dtype = dtype s, aq_device = None\<rparr> \<and>
      map_sum id snd (RandomGrayscale_declare_state_and_memory rg s)
        = Inr \<lparr>aq_shape = shape s, aq_dtype = dtype s, aq_device = None\<rparr>) \<and>
   (device s \<noteq> ''cpu'' \<or> is_torch_dtype (dtype s) \<longrightarrow>
      map_sum id snd (ColorJitter_declare_state_and_memory cj s) = Inl AssertionError \<and>
      map_sum id snd (RandomGrayscale_declare_state_and_memory rg s) = Inl AssertionError) \<and>
   (jit_mode s \<and> device s = ''cpu'' \<and> \<not> is_torch_dtype (dtype s) \<longrightarrow>
      map_sum id snd (ResizedCrop_declare_state_and_memory rc s)
        = Inr \<lparr>aq_shape = [ResizedCrop_size rc, ResizedCrop_size rc, 3],
               aq_dtype = np_uint8, aq_device = None\<rparr>) \<and>
   (\<not> jit_mode s \<or> device s \<noteq> ''cpu'' \<or> is_torch_dtype (dtype s) \<longrightarrow>
      map_sum id snd (ResizedCrop_declare_state_and_memory rc s) = Inl AssertionError)"
  by (auto simp add: ColorJitter_declare_state_and_memory_def
      RandomGrayscale_declare_state_and_memory_def ResizedCrop_declare_state_and_memory_def
      State_post_init_jit State_post_init_shape)

theorem declare_allocation_witness:
  "map_sum id snd (ColorJitter_declare_state_and_memory
        \<lparr>brightness = Some (0.7 :: real, 1.3), contrast = None, saturation = None, hue = None\<rparr>
        \<lparr>jit_mode = True, device = ''cpu'', shape = [300, 400, 3], dtype = np_uint8\<rparr>)
     = Inr \<lparr>aq_shape = [300, 400, 3], aq_dtype = np_uint8, aq_device = None\<rparr>
   \<and> map_sum id snd (ResizedCrop_declare_state_and_memory (ResizedCrop_init 224 1)
        \<lparr>jit_mode = True, device = ''cpu'', shape = [300, 400, 3], dtype = np_uint8\<rparr>)
     = Inr \<lparr>aq_shape = [224, 224, 3], aq_dtype = np_uint8, aq_device = None\<rparr>
   \<and> map_sum id snd (RandomGrayscale_declare_state_and_memory (RandomGrayscale_init (0.1 :: real))
        \<lparr>jit_mode = False, device = ''cuda:0'', shape = [3, 64, 64], dtype = np_float16\<rparr>)
     = Inl AssertionError
   \<and> map_sum id snd (ResizedCrop_declare_state_and_memory (ResizedCrop_init 224 1)
        \<lparr>jit_mode = False, device = ''cuda:0'', shape = [3, 64, 64], dtype = np_float16\<rparr>)
     = Inl AssertionError"
proof -
  let ?cj = "\<lparr>brightness = Some (0.7 :: real, 1.3), contrast = None, saturation = None,
              hue = None\<rparr>"
  let ?rg = "RandomGrayscale_init (0.1 :: real)"
  let ?rc = "ResizedCrop_init 224 1"
  note a = declare_allocation
    [of "\<lparr>jit_mode = True, device = ''cpu'', shape = [300, 400, 3], dtype = np_uint8\<rparr>"
        ?cj ?rg ?rc]
  note b = declare_allocation
    [of "\<lparr>jit_mode = False, device = ''cuda:0'', shape = [3, 64, 64], dtype = np_float16\<rparr>"
        ?cj ?rg ?rc]
  have 1: "map_sum id snd (ColorJitter_declare_state_and_memory ?cj
        \<lparr>jit_mode = True, device = ''cpu'', shape = [300, 400, 3], dtype = np_uint8\<rparr>)
     = Inr \<lparr>aq_shape = [300, 400, 3], aq_dtype = np_uint8, aq_device = None\<rparr>"
    using a by (simp add: is_torch_dtype_def)
  have 2: "map_sum id snd (ResizedCrop_declare_state_and_memory ?rc
        \<lparr>jit_mode = True, device = ''cpu'', shape = [300, 400, 3], dtype = np_uint8\<rparr>)
     = Inr \<lparr>aq_shape = [224, 224, 3], aq_dtype = np_uint8, aq_device = None\<rparr>"
    using a by (simp add: is_torch_dtype_def ResizedCrop_init_def)
  have 3: "map_sum id snd (RandomGrayscale_declare_state_and_memory ?rg
        \<lparr>jit_mode = False, device = ''cuda:0'', shape = [3, 64, 64], dtype = np_float16\<rparr>)
     = Inl AssertionError"
    using b by simp
  have 4: "map_sum id snd (ResizedCrop_declare_state_and_memory ?rc
        \<lparr>jit_mode = False, device = ''cuda:0'', shape = [3, 64, 64], dtype = np_float16\<rparr>)
     = Inl AssertionError"
    using b by simp
  from 1 2 3 4 show ?thesis
    by blast
qed

text \<open>
  On a previous state on another device RandomGrayscale requests no allocation, and on one
  without \<^verbatim>\<open>jit_mode\<close> ResizedCrop requests none: the claim as it was stated fails there.
\<close>

theorem declare_allocation_counterexample:
  "map_sum id snd (RandomGrayscale_declare_state_and_memory (RandomGrayscale_init (0.1 :: real))
     \<lparr>jit_mode = False, device = ''cuda:0'', shape = [3, 224, 224], dtype = torch_float32\<rparr>)
   \<noteq> Inr \<lparr>aq_shape = [3, 224, 224], aq_dtype = torch_float32, aq_device = None\<rparr>
   \<and> map_sum id snd (ResizedCrop_declare_state_and_memory (ResizedCrop_init 224 1)
     \<lparr>jit_mode = False, device = ''cpu'', shape = [300, 400, 3], dtype = np_uint8\<rparr>)
   \<noteq> Inr \<lparr>aq_shape = [224, 224, 3], aq_dtype = np_uint8, aq_device = None\<rparr>"
  by (simp add: RandomGrayscale_declare_state_and_memory_def
      ResizedCrop_declare_state_and_memory_def State_post_init_def)

section \<open>The operator interface\<close>




section \<open>The resized crop\<close>

text \<open>
  C7. Whatever the host's \<^verbatim>\<open>get_center_crop\<close> and \<^verbatim>\<open>resize_crop\<close> compute, the function
  emitted by \<^verbatim>\<open>ResizedCrop.generate_code\<close> takes \<^verbatim>\<open>(i, j, h, w)\<close> from
  \<^verbatim>\<open>get_center_crop\<close> at the input's height, its width and the configured ratio, lets
  \<^verbatim>\<open>resize_crop\<close> fill the destination from the rows \<^verbatim>\<open>i..i+h\<close> and the columns
  \<^verbatim>\<open>j..j+w\<close> of the input, and returns the destination. No other array changes, so the
  input is as it was unless it is the destination itself.
\<close>

theorem resized_crop_window:
  assumes "get_center_crop (height (\<sigma> im)) (width (\<sigma> im)) (ResizedCrop_ratio rc) = (i, j, h, w)"
  shows
  "run (ResizedCrop_generate_code get_center_crop resize_crop rc) \<sigma> im dst
     = (\<sigma>(dst := resize_crop (\<sigma> im) i (i + h) j (j + w) (\<sigma> dst)), dst)
   \<and> (\<forall>r. r \<noteq> dst \<longrightarrow>
         fst (run (ResizedCrop_generate_code get_center_crop resize_crop rc) \<sigma> im dst) r = \<sigma> r)"
  using assms by (simp add: ResizedCrop_generate_code_def resized_crop_def)

theorem resized_crop_window_witness:
  "center_window
     (height ([[(1, 2, 3), (4, 5, 6), (7, 8, 9), (10, 11, 12)],
               [(13, 14, 15), (16, 17, 18), (19, 20, 21), (22, 23, 24)]]))
     (width ([[(1, 2, 3), (4, 5, 6), (7, 8, 9), (10, 11, 12)],
              [(13, 14, 15), (16, 17, 18), (19, 20, 21), (22, 23, 24)]]))
     (ResizedCrop_ratio (ResizedCrop_init 1 1)) = (0, 1, 2, 2)
   \<and> snd (run (ResizedCrop_generate_code center_window nearest_resize (ResizedCrop_init 1 1))
        ((\<lambda>_. [])(0 := [[(1, 2, 3), (4, 5, 6), (7, 8, 9), (10, 11, 12)],
                          [(13, 14, 15), (16, 17, 18), (19, 20, 21), (22, 23, 24)]],
                    1 := [[(0, 0, 0)]])) 0 1) = 1
   \<and> fst (run (ResizedCrop_generate_code center_window nearest_resize (ResizedCrop_init 1 1))
        ((\<lambda>_. [])(0 := [[(1, 2, 3), (4, 5, 6), (7, 8, 9), (10, 11, 12)],
                          [(13, 14, 15), (16, 17, 18), (19, 20, 21), (22, 23, 24)]],
                    1 := [[(0, 0, 0)]])) 0 1) 1 = [[(4, 5, 6)]]
   \<and> fst (run (ResizedCrop_generate_code center_window nearest_resize (ResizedCrop_init 1 1))
        ((\<lambda>_. [])(0 := [[(1, 2, 3), (4, 5, 6), (7, 8, 9), (10, 11, 12)],
                          [(13, 14, 15), (16, 17, 18), (19, 20, 21), (22, 23, 24)]],
                    1 := [[(0, 0, 0)]])) 0 1) 0
       = [[(1, 2, 3), (4, 5, 6), (7, 8, 9), (10, 11, 12)],
          [(13, 14, 15), (16, 17, 18), (19, 20, 21), (22, 23, 24)]]"
proof -
  let ?a = "[[(1, 2, 3), (4, 5, 6), (7, 8, 9), (10, 11, 12)],
             [(13, 14, 15), (16, 17, 18), (19, 20, 21), (22, 23, 24)]] :: image"
  let ?\<sigma> = "(\<lambda>_. [])(0 := ?a, 1 := [[(0, 0, 0)]]) :: image store"
  have w: "center_window (height (?\<sigma> 0)) (width (?\<sigma> 0)) (ResizedCrop_ratio (ResizedCrop_init 1 1))
           = (0, 1, 2, 2)"
    by (simp add: center_window_def height_def width_def ResizedCrop_init_def)
  have n: "nearest_resize ?a 0 2 1 3 [[(0, 0, 0)]] = [[(4, 5, 6)]]"
    by (simp add: nearest_resize_def height_def width_def)
  have "run (ResizedCrop_generate_code center_window nearest_resize (ResizedCrop_init 1 1)) ?\<sigma> 0 1
          = (?\<sigma>(1 := nearest_resize (?\<sigma> 0) 0 (0 + 2) 1 (1 + 2) (?\<sigma> 1)), 1)"
    using resized_crop_window
      [where get_center_crop = center_window and resize_crop = nearest_resize
         and \<sigma> = ?\<sigma> and im = 0 and dst = 1 and rc = "ResizedCrop_init 1 1"
         and i = 0 and j = 1 and h = 2 and w = 2] w
    by blast
  with w n show ?thesis
    by simp
qed

section \<open>The dataset writer script\<close>

lemma writer_calls_append: "writer_calls (xs @ ys) = writer_calls xs @ writer_calls ys"
  by (induction xs rule: writer_calls.induct) simp_all

lemma writer_calls_envs:
  "writer_calls (concat (map write_env ps))
     = map (\<lambda>(env, ds).
         (\<lparr>fname = Join (Path (ds_root ds)) (env @ ''.beton''),
           writer_fields = [(''image'', RGBImageField), (''label'', IntField)]\<rparr>, ds)) ps"
  by (induction ps) (auto simp add: write_env_def writer_calls_append)

text \<open>
  C4. When the selected dataset class is found and every environment has its dataset
  (the two parallel lists \<^verbatim>\<open>environments\<close> and \<^verbatim>\<open>datasets\<close>), \<^verbatim>\<open>write\<close> returns
  normally and calls \<^verbatim>\<open>from_indexed_dataset\<close> once per environment, in order: call \<open>k\<close>
  is made on a writer whose target is \<^verbatim>\<open>Path(ds.root) / '{env}.beton'\<close> for environment
  \<open>k\<close> and its dataset, whose fields are \<^verbatim>\<open>image\<close>, an RGB image field, and
  \<^verbatim>\<open>label\<close>, an integer field, and it is given that dataset.
\<close>

theorem write_one_writer_per_environment:
  assumes "classes (dataset a) = Some cls"
      and "length (environments (cls (data_dir a))) \<le> length (datasets (cls (data_dir a)))"
  shows
  "\<exists>effects. write_betons classes a = Inr effects
     \<and> length (writer_calls effects) = length (environments (cls (data_dir a)))
     \<and> (\<forall>k < length (environments (cls (data_dir a))).
          writer_calls effects ! k
            = (\<lparr>fname = Join (Path (ds_root (datasets (cls (data_dir a)) ! k)))
                               (environments (cls (data_dir a)) ! k @ ''.beton''),
                 writer_fields = [(''image'', RGBImageField), (''label'', IntField)]\<rparr>,
               datasets (cls (data_dir a)) ! k))"
  using assms
  by (simp add: write_betons_def Let_def writer_calls_envs)


theorem write_one_writer_per_environment_witness:
  "[''PACS'' \<mapsto> (\<lambda>dir. \<lparr>environments = [''art'', ''photo''],
        datasets = [\<lparr>ds_root = dir @ ''/PACS/art'', samples = [0, 1 :: nat]\<rparr>,
                    \<lparr>ds_root = dir @ ''/PACS/photo'', samples = [2]\<rparr>]\<rparr>)]
     (dataset \<lparr>dataset = ''PACS'', data_dir = ''/data''\<rparr>) \<noteq> None
   \<and> (\<exists>effects.
        write_betons
          [''PACS'' \<mapsto> (\<lambda>dir. \<lparr>environments = [''art'', ''photo''],
             datasets = [\<lparr>ds_root = dir @ ''/PACS/art'', samples = [0, 1 :: nat]\<rparr>,
                         \<lparr>ds_root = dir @ ''/PACS/photo'', samples = [2]\<rparr>]\<rparr>)]
          \<lparr>dataset = ''PACS'', data_dir = ''/data''\<rparr> = Inr effects
        \<and> length (writer_calls effects) = 2
        \<and> writer_calls effects ! 1
            = (\<lparr>fname = Join (Path ''/data/PACS/photo'') ''photo.beton'',
                 writer_fields = [(''image'', RGBImageField), (''label'', IntField)]\<rparr>,
               \<lparr>ds_root = ''/data/PACS/photo'', samples = [2]\<rparr>))"
proof -
  let ?cls = "\<lambda>dir. \<lparr>environments = [''art'', ''photo''],
        datasets = [\<lparr>ds_root = dir @ ''/PACS/art'', samples = [0, 1 :: nat]\<rparr>,
                    \<lparr>ds_root = dir @ ''/PACS/photo'', samples = [2]\<rparr>]\<rparr>"
  let ?a = "\<lparr>dataset = ''PACS'', data_dir = ''/data''\<rparr>"
  have c: "[''PACS'' \<mapsto> ?cls] (dataset ?a) = Some ?cls"
    by simp
  have l: "length (environments (?cls (data_dir ?a))) \<le> length (datasets (?cls (data_dir ?a)))"
    by simp
  note th = write_one_writer_per_environment
    [where classes = "[''PACS'' \<mapsto> ?cls]" and a = ?a and cls = ?cls]
  from th [OF c l] obtain effects where
    e: "write_betons [''PACS'' \<mapsto> ?cls] ?a = Inr effects"
       "length (writer_calls effects) = length (environments (?cls (data_dir ?a)))"
       "\<forall>k < length (environments (?cls (data_dir ?a))).
          writer_calls effects ! k
            = (\<lparr>fname = Join (Path (ds_root (datasets (?cls (data_dir ?a)) ! k)))
                               (environments (?cls (data_dir ?a)) ! k @ ''.beton''),
                 writer_fields = [(''image'', RGBImageField), (''label'', IntField)]\<rparr>,
               datasets (?cls (data_dir ?a)) ! k)"
    by blast
  from e(3) have "writer_calls effects ! 1
            = (\<lparr>fname = Join (Path ''/data/PACS/photo'') ''photo.beton'',
                 writer_fields = [(''image'', RGBImageField), (''label'', IntField)]\<rparr>,
               \<lparr>ds_root = ''/data/PACS/photo'', samples = [2]\<rparr>)"
    by simp
  with e(1,2) c show ?thesis
    by simp
qed

section \<open>Running the model in exact arithmetic\<close>

lemma exact_simps:
  "fconst exact c = c"
  "of_uint8 exact v = real (unat v)"
  "fadd exact x y = x + y"
  "fsub exact x y = x - y"
  "fmul exact x y = x * y"
  "fdiv exact x y = x / y"
  "flt exact x y = (x < y)"
  "fle exact x y = (x \<le> y)"
  "feq exact x y = (x = y)"
  "fle_inf exact x = True"
  "fclip exact x lo hi = min (max x lo) hi"
  "to_uint8 exact x = word_of_int (if 0 \<le> x then \<lfloor>x\<rfloor> else \<lceil>x\<rceil>)"
  "fcos exact x = cos x"
  "fsin exact x = sin x"
  "fsqrt exact x = sqrt x"
  "fpi exact = pi"
  "fmean exact xs = sum_list xs / real (length xs)"
  by (simp_all add: exact_def)

section \<open>Parameter checking of ColorJitter\<close>

lemma check_input_Number:
  "check_input ops (Number x) center bound cf =
     (if flt ops x (fconst ops 0) then Inl ValueError
      else Inr (if feq ops (if cf then py_max ops (fsub ops center x) (fconst ops 0)
                            else fsub ops center x) (fadd ops center x)
                   \<and> feq ops (fadd ops center x) center
                then None
                else Some (if cf then py_max ops (fsub ops center x) (fconst ops 0)
                           else fsub ops center x, fadd ops center x)))"
  by (simp add: check_input_def Let_def)

lemma check_input_Seq2:
  "check_input ops (Seq [lo, hi]) center bound cf =
     (if \<not> (fle ops (fst bound) lo \<and> fle ops lo hi \<and> le_bound ops hi (snd bound))
      then Inl ValueError
      else Inr (if feq ops lo hi \<and> feq ops hi center then None else Some (lo, hi)))"
  by (simp add: check_input_def)

lemma check_input_TypeError:
  "check_input ops Other center bound cf = Inl TypeError"
  "length xs \<noteq> 2 \<Longrightarrow> check_input ops (Seq xs) center bound cf = Inl TypeError"
  by (auto simp add: check_input_def split: list.splits)

lemma check_input_stored:
  assumes "check_input ops v center bound cf = Inr r"
  shows "\<exists>lo hi. normalized_range ops v center cf = Some (lo, hi)
           \<and> r = (if feq ops lo hi \<and> feq ops hi center then None else Some (lo, hi))"
proof (cases v)
  case (Number x)
  with assms show ?thesis
    by (auto simp add: check_input_Number normalized_range_def split: if_splits)
next
  case (Seq xs)
  with assms show ?thesis
    by (auto simp add: check_input_def normalized_range_def split: list.splits if_splits)
next
  case Other
  with assms show ?thesis by (simp add: check_input_TypeError)
qed

lemma check_input_errors:
  assumes "check_input ops v center bound cf = Inl e"
  shows "e = ValueError \<or> e = TypeError"
  using assms
  by (cases v) (auto simp add: check_input_def Let_def split: list.splits if_splits)

lemma jitter_step_None:
  "brightness self = None \<Longrightarrow> jitter_step ops self d 0 img = img"
  "contrast self = None \<Longrightarrow> jitter_step ops self d 1 img = img"
  "saturation self = None \<Longrightarrow> jitter_step ops self d 2 img = img"
  "hue self = None \<Longrightarrow> jitter_step ops self d 3 img = img"
  by (simp_all add: jitter_step_def)

lemma jitter_step_all_None:
  assumes "brightness self = None" and "contrast self = None"
      and "saturation self = None" and "hue self = None"
  shows "jitter_step ops self d k img = img"
  using assms by (simp add: jitter_step_def)

lemma color_jitter_all_None:
  assumes "brightness self = None" and "contrast self = None"
      and "saturation self = None" and "hue self = None"
  shows "color_jitter ops self draws \<sigma> images = (\<sigma>, images)"
proof -
  have "fold (jitter_step ops self d) ks img = img" for d ks img
    by (induction ks) (simp_all add: jitter_step_all_None [OF assms])
  then have "color_jitter_batch ops self draws (\<sigma> images) = \<sigma> images"
    by (simp add: color_jitter_batch_def jitter_image_def map_nth)
  then show ?thesis
    by (simp add: color_jitter_def)
qed

lemma ColorJitter_init_Inr:
  "ColorJitter_init ops b c s h = Inr self \<longleftrightarrow>
     check_input ops b (fconst ops 1) (fconst ops 0, None) True = Inr (brightness self) \<and>
     check_input ops c (fconst ops 1) (fconst ops 0, None) True = Inr (contrast self) \<and>
     check_input ops s (fconst ops 1) (fconst ops 0, None) True = Inr (saturation self) \<and>
     check_input ops h (fconst ops 0) (fconst ops (- 0.5), Some (fconst ops 0.5)) False
       = Inr (hue self)"
  by (cases self) (auto simp add: ColorJitter_init_def split: sum.splits)

lemma ColorJitter_init_Inl:
  "ColorJitter_init ops b c s h = Inl e \<longleftrightarrow>
     check_input ops b (fconst ops 1) (fconst ops 0, None) True = Inl e \<or>
     (\<exists>b'. check_input ops b (fconst ops 1) (fconst ops 0, None) True = Inr b') \<and>
     (check_input ops c (fconst ops 1) (fconst ops 0, None) True = Inl e \<or>
      (\<exists>c'. check_input ops c (fconst ops 1) (fconst ops 0, None) True = Inr c') \<and>
      (check_input ops s (fconst ops 1) (fconst ops 0, None) True = Inl e \<or>
       (\<exists>s'. check_input ops s (fconst ops 1) (fconst ops 0, None) True = Inr s') \<and>
       check_input ops h (fconst ops 0) (fconst ops (- 0.5), Some (fconst ops 0.5)) False
         = Inl e))"
  by (auto simp add: ColorJitter_init_def split: sum.splits)

lemma jitter_step_fn_idx: "jitter_step ops self (d\<lparr>fn_idx := ks\<rparr>) = jitter_step ops self d"
  by (intro ext) (auto simp add: jitter_step_def)

lemma fold_skip:
  assumes "\<And>img. f k img = img"
  shows "fold f (removeAll k ks) img = fold f ks img"
  by (induction ks arbitrary: img) (auto simp add: assms)

lemma color_jitter_skip:
  assumes "\<And>d img. jitter_step ops self d k img = img"
  shows "color_jitter ops self (\<lambda>i. (draws i)\<lparr>fn_idx := removeAll k (fn_idx (draws i))\<rparr>) \<sigma> images
         = color_jitter ops self draws \<sigma> images"
  using assms
  by (simp add: color_jitter_def color_jitter_batch_def jitter_image_def jitter_step_fn_idx
      fold_skip)

text \<open>
  C8. With the arguments \<^verbatim>\<open>__init__\<close> passes for brightness, contrast and saturation (center 1,
  bound \<^verbatim>\<open>(0, inf)\<close>, first end clipped at 0) and for hue (center 0, bound \<^verbatim>\<open>(-0.5, 0.5)\<close>,
  no clipping): a negative number raises ValueError; a pair raises ValueError exactly when it
  is not ordered within the bound; a value of another type, or a sequence whose length is not 2,
  raises TypeError. \<^verbatim>\<open>__init__\<close> raises the exception of the first check that fails, always
  a ValueError or a TypeError, and returns exactly when the four checks pass, storing their
  results. A checked parameter is stored as \<open>None\<close> exactly when both ends of its normalized
  range equal the center, as for the default 0 of all four. The branch of the kernel for a
  parameter stored as \<open>None\<close> leaves the image as it is: the emitted kernel acts as if the
  entry of that jitter were not in \<^verbatim>\<open>fn_idx\<close>, and with all four stored as \<open>None\<close> it
  changes nothing.
\<close>

theorem ColorJitter_init_validation:
  "(flt ops x (fconst ops 0) \<longrightarrow>
      check_input ops (Number x) (fconst ops 1) (fconst ops 0, None) True = Inl ValueError \<and>
      check_input ops (Number x) (fconst ops 0) (fconst ops (- 0.5), Some (fconst ops 0.5)) False
        = Inl ValueError \<and>
      ColorJitter_init ops (Number x) c s h = Inl ValueError) \<and>
   ((check_input ops (Seq [lo, hi]) (fconst ops 1) (fconst ops 0, None) True = Inl ValueError)
      = (\<not> (fle ops (fconst ops 0) lo \<and> fle ops lo hi \<and> fle_inf ops hi))) \<and>
   ((check_input ops (Seq [lo, hi]) (fconst ops 0) (fconst ops (- 0.5), Some (fconst ops 0.5))
       False = Inl ValueError)
      = (\<not> (fle ops (fconst ops (- 0.5)) lo \<and> fle ops lo hi \<and> fle ops hi (fconst ops 0.5)))) \<and>
   (v = Other \<or> (\<exists>xs. v = Seq xs \<and> length xs \<noteq> 2) \<longrightarrow>
      check_input ops v (fconst ops 1) (fconst ops 0, None) True = Inl TypeError \<and>
      check_input ops v (fconst ops 0) (fconst ops (- 0.5), Some (fconst ops 0.5)) False
        = Inl TypeError \<and>
      ColorJitter_init ops v c s h = Inl TypeError) \<and>
   ((ColorJitter_init ops b c s h = Inl e) =
      (check_input ops b (fconst ops 1) (fconst ops 0, None) True = Inl e \<or>
       (\<exists>b'. check_input ops b (fconst ops 1) (fconst ops 0, None) True = Inr b') \<and>
       (check_input ops c (fconst ops 1) (fconst ops 0, None) True = Inl e \<or>
        (\<exists>c'. check_input ops c (fconst ops 1) (fconst ops 0, None) True = Inr c') \<and>
        (check_input ops s (fconst ops 1) (fconst ops 0, None) True = Inl e \<or>
         (\<exists>s'. check_input ops s (fconst ops 1) (fconst ops 0, None) True = Inr s') \<and>
         check_input ops h (fconst ops 0) (fconst ops (- 0.5), Some (fconst ops 0.5)) False
           = Inl e)))) \<and>
   (ColorJitter_init ops b c s h = Inl e \<longrightarrow> e = ValueError \<or> e = TypeError) \<and>
   ((ColorJitter_init ops b c s h = Inr self) =
      (check_input ops b (fconst ops 1) (fconst ops 0, None) True = Inr (brightness self) \<and>
       check_input ops c (fconst ops 1) (fconst ops 0, None) True = Inr (contrast self) \<and>
       check_input ops s (fconst ops 1) (fconst ops 0, None) True = Inr (saturation self) \<and>
       check_input ops h (fconst ops 0) (fconst ops (- 0.5), Some (fconst ops 0.5)) False
         = Inr (hue self))) \<and>
   (check_input ops v center bound cf = Inr r \<longrightarrow>
      (\<exists>lo hi. normalized_range ops v center cf = Some (lo, hi)
         \<and> r = (if feq ops lo hi \<and> feq ops hi center then None else Some (lo, hi)))) \<and>
   (\<not> flt ops (fconst ops 0) (fconst ops 0) \<and> \<not> flt ops (fconst ops 1) (fconst ops 0)
    \<and> fsub ops (fconst ops 1) (fconst ops 0) = fconst ops 1
    \<and> fadd ops (fconst ops 1) (fconst ops 0) = fconst ops 1
    \<and> fsub ops (fconst ops 0) (fconst ops 0) = fconst ops 0
    \<and> fadd ops (fconst ops 0) (fconst ops 0) = fconst ops 0
    \<and> feq ops (fconst ops 1) (fconst ops 1) \<and> feq ops (fconst ops 0) (fconst ops 0) \<longrightarrow>
      ColorJitter_default ops
        = Inr \<lparr>brightness = None, contrast = None, saturation = None, hue = None\<rparr>) \<and>
   (brightness self = None \<longrightarrow>
      jitter_step ops self d 0 img = img \<and>
      run (ColorJitter_generate_code ops self)
          (\<lambda>i. (draws i)\<lparr>fn_idx := removeAll 0 (fn_idx (draws i))\<rparr>) \<sigma> images
        = run (ColorJitter_generate_code ops self) draws \<sigma> images) \<and>
   (contrast self = None \<longrightarrow>
      jitter_step ops self d 1 img = img \<and>
      run (ColorJitter_generate_code ops self)
          (\<lambda>i. (draws i)\<lparr>fn_idx := removeAll 1 (fn_idx (draws i))\<rparr>) \<sigma> images
        = run (ColorJitter_generate_code ops self) draws \<sigma> images) \<and>
   (saturation self = None \<longrightarrow>
      jitter_step ops self d 2 img = img \<and>
      run (ColorJitter_generate_code ops self)
          (\<lambda>i. (draws i)\<lparr>fn_idx := removeAll 2 (fn_idx (draws i))\<rparr>) \<sigma> images
        = run (ColorJitter_generate_code ops self) draws \<sigma> images) \<and>
   (hue self = None \<longrightarrow>
      jitter_step ops self d 3 img = img \<and>
      run (ColorJitter_generate_code ops self)
          (\<lambda>i. (draws i)\<lparr>fn_idx := removeAll 3 (fn_idx (draws i))\<rparr>) \<sigma> images
        = run (ColorJitter_generate_code ops self) draws \<sigma> images) \<and>
   (brightness self = None \<and> contrast self = None \<and> saturation self = None \<and> hue self = None
      \<longrightarrow> run (ColorJitter_generate_code ops self) draws \<sigma> images = (\<sigma>, images))"
proof -
  have neg: "flt ops x (fconst ops 0) \<longrightarrow>
      check_input ops (Number x) (fconst ops 1) (fconst ops 0, None) True = Inl ValueError \<and>
      check_input ops (Number x) (fconst ops 0) (fconst ops (- 0.5), Some (fconst ops 0.5)) False
        = Inl ValueError \<and>
      ColorJitter_init ops (Number x) c s h = Inl ValueError"
    by (simp add: check_input_Number ColorJitter_init_Inl)
  have seq1: "(check_input ops (Seq [lo, hi]) (fconst ops 1) (fconst ops 0, None) True
        = Inl ValueError)
      = (\<not> (fle ops (fconst ops 0) lo \<and> fle ops lo hi \<and> fle_inf ops hi))"
    by (simp add: check_input_Seq2 le_bound_def)
  have seq2: "(check_input ops (Seq [lo, hi]) (fconst ops 0)
        (fconst ops (- 0.5), Some (fconst ops 0.5)) False = Inl ValueError)
      = (\<not> (fle ops (fconst ops (- 0.5)) lo \<and> fle ops lo hi \<and> fle ops hi (fconst ops 0.5)))"
    by (simp add: check_input_Seq2 le_bound_def)
  have ty: "v = Other \<or> (\<exists>xs. v = Seq xs \<and> length xs \<noteq> 2) \<longrightarrow>
      check_input ops v (fconst ops 1) (fconst ops 0, None) True = Inl TypeError \<and>
      check_input ops v (fconst ops 0) (fconst ops (- 0.5), Some (fconst ops 0.5)) False
        = Inl TypeError \<and>
      ColorJitter_init ops v c s h = Inl TypeError"
    by (auto simp add: check_input_TypeError ColorJitter_init_Inl)
  have err: "ColorJitter_init ops b c s h = Inl e \<longrightarrow> e = ValueError \<or> e = TypeError"
    by (auto simp add: ColorJitter_init_Inl dest: check_input_errors)
  have stored: "check_input ops v center bound cf = Inr r \<longrightarrow>
      (\<exists>lo hi. normalized_range ops v center cf = Some (lo, hi)
         \<and> r = (if feq ops lo hi \<and> feq ops hi center then None else Some (lo, hi)))"
    using check_input_stored [of ops v center bound cf r] by blast
  have dflt: "\<not> flt ops (fconst ops 0) (fconst ops 0) \<and> \<not> flt ops (fconst ops 1) (fconst ops 0)
    \<and> fsub ops (fconst ops 1) (fconst ops 0) = fconst ops 1
    \<and> fadd ops (fconst ops 1) (fconst ops 0) = fconst ops 1
    \<and> fsub ops (fconst ops 0) (fconst ops 0) = fconst ops 0
    \<and> fadd ops (fconst ops 0) (fconst ops 0) = fconst ops 0
    \<and> feq ops (fconst ops 1) (fconst ops 1) \<and> feq ops (fconst ops 0) (fconst ops 0) \<longrightarrow>
      ColorJitter_default ops
        = Inr \<lparr>brightness = None, contrast = None, saturation = None, hue = None\<rparr>"
    by (simp add: ColorJitter_default_def ColorJitter_init_def check_input_Number py_max_def)
  have k0: "brightness self = None \<longrightarrow>
      jitter_step ops self d 0 img = img \<and>
      run (ColorJitter_generate_code ops self)
          (\<lambda>i. (draws i)\<lparr>fn_idx := removeAll 0 (fn_idx (draws i))\<rparr>) \<sigma> images
        = run (ColorJitter_generate_code ops self) draws \<sigma> images"
    using color_jitter_skip [of ops self 0 draws \<sigma> images]
    by (simp add: jitter_step_None ColorJitter_generate_code_def)
  have k1: "contrast self = None \<longrightarrow>
      jitter_step ops self d 1 img = img \<and>
      run (ColorJitter_generate_code ops self)
          (\<lambda>i. (draws i)\<lparr>fn_idx := removeAll 1 (fn_idx (draws i))\<rparr>) \<sigma> images
        = run (ColorJitter_generate_code ops self) draws \<sigma> images"
    using color_jitter_skip [of ops self 1 draws \<sigma> images] jitter_step_None(2) [of self ops]
    by (simp add: ColorJitter_generate_code_def)
  have k2: "saturation self = None \<longrightarrow>
      jitter_step ops self d 2 img = img \<and>
      run (ColorJitter_generate_code ops self)
          (\<lambda>i. (draws i)\<lparr>fn_idx := removeAll 2 (fn_idx (draws i))\<rparr>) \<sigma> images
        = run (ColorJitter_generate_code ops self) draws \<sigma> images"
    using color_jitter_skip [of ops self 2 draws \<sigma> images] jitter_step_None(3) [of self ops]
    by (simp add: ColorJitter_generate_code_def)
  have k3: "hue self = None \<longrightarrow>
      jitter_step ops self d 3 img = img \<and>
      run (ColorJitter_generate_code ops self)
          (\<lambda>i. (draws i)\<lparr>fn_idx := removeAll 3 (fn_idx (draws i))\<rparr>) \<sigma> images
        = run (ColorJitter_generate_code ops self) draws \<sigma> images"
    using color_jitter_skip [of ops self 3 draws \<sigma> images] jitter_step_None(4) [of self ops]
    by (simp add: ColorJitter_generate_code_def)
  have all: "brightness self = None \<and> contrast self = None \<and> saturation self = None
      \<and> hue self = None
      \<longrightarrow> run (ColorJitter_generate_code ops self) draws \<sigma> images = (\<sigma>, images)"
    by (simp add: ColorJitter_generate_code_def color_jitter_all_None)
  show ?thesis
    using neg seq1 seq2 ty err stored dflt k0 k1 k2 k3 all
      ColorJitter_init_Inl [of ops b c s h e] ColorJitter_init_Inr [of ops b c s h self]
    by blast
qed

theorem ColorJitter_init_validation_witness:
  "flt exact (- 0.1) (fconst exact 0)
   \<and> check_input exact (Number (- 0.1)) (fconst exact 1) (fconst exact 0, None) True
       = Inl ValueError
   \<and> ColorJitter_init exact (Number (- 0.1)) (Number 0) (Number 0) (Number 0) = Inl ValueError
   \<and> check_input exact (Seq [1.5, 0.5]) (fconst exact 1) (fconst exact 0, None) True
       = Inl ValueError
   \<and> check_input exact (Seq [- 0.6, 0.5]) (fconst exact 0)
        (fconst exact (- 0.5), Some (fconst exact 0.5)) False = Inl ValueError
   \<and> ColorJitter_init exact (Seq [1, 2, 3]) (Number 0) (Number 0) (Number 0) = Inl TypeError
   \<and> ColorJitter_init exact (Number 0.25) (Number 0) (Seq [0.5, 1.5]) (Number 0.25)
       = Inr \<lparr>brightness = Some (0.75, 1.25), contrast = None,
              saturation = Some (0.5, 1.5), hue = Some (- 0.25, 0.25)\<rparr>
   \<and> ColorJitter_default exact
       = Inr \<lparr>brightness = None, contrast = None, saturation = None, hue = None\<rparr>
   \<and> jitter_step exact
        \<lparr>brightness = Some (0.75, 1.25), contrast = None,
         saturation = Some (0.5, 1.5), hue = Some (- 0.25, 0.25)\<rparr>
        \<lparr>fn_idx = [1, 0, 3, 2], uniform_brightness = uniform_at 0.5,
         uniform_contrast = uniform_at 0.5, uniform_saturation = uniform_at 0.5,
         uniform_hue = uniform_at 0.5\<rparr> 1 [[(10, 20, 30)]]
       = [[(10, 20, 30)]]
   \<and> run (ColorJitter_generate_code exact
             \<lparr>brightness = None, contrast = None, saturation = None, hue = None\<rparr>)
        (\<lambda>_. \<lparr>fn_idx = [1, 0, 3, 2], uniform_brightness = uniform_at 0.5,
               uniform_contrast = uniform_at 0.5, uniform_saturation = uniform_at 0.5,
               uniform_hue = uniform_at 0.5\<rparr>)
        (\<lambda>_. [[[(10, 20, 30)]]]) 0
       = (\<lambda>_. [[[(10, 20, 30)]]], 0)"
proof -
  let ?self = "\<lparr>brightness = Some (0.75, 1.25), contrast = None,
                saturation = Some (0.5, 1.5), hue = Some (- 0.25 :: real, 0.25)\<rparr>"
  let ?none = "\<lparr>brightness = None, contrast = None, saturation = None,
                hue = None :: (real \<times> real) option\<rparr>"
  let ?d = "\<lparr>fn_idx = [1, 0, 3, 2], uniform_brightness = uniform_at 0.5,
             uniform_contrast = uniform_at 0.5, uniform_saturation = uniform_at 0.5,
             uniform_hue = uniform_at 0.5\<rparr>"
  note th1 = ColorJitter_init_validation
    [where ops = exact and x = "- 0.1" and lo = "1.5" and hi = "0.5" and v = "Seq [1, 2, 3]"
       and b = "Number 0.25" and c = "Number 0" and s = "Number 0" and h = "Number 0"
       and self = ?self and d = ?d and img = "[[(10, 20, 30)]]"]
  note th2 = ColorJitter_init_validation
    [where ops = exact and x = "- 0.1" and lo = "- 0.6" and hi = "0.5" and v = "Seq [1, 2, 3]"
       and b = "Number 0.25" and c = "Number 0" and s = "Seq [0.5, 1.5]" and h = "Number 0.25"
       and self = ?self and d = ?d and img = "[[(10, 20, 30)]]"]
  note th3 = ColorJitter_init_validation
    [where ops = exact and self = ?none and draws = "\<lambda>_. ?d"
       and \<sigma> = "\<lambda>_. [[[(10, 20, 30)]]]" and images = 0]
  have neg: "flt exact (- 0.1) (fconst exact 0)"
    by (simp add: exact_simps)
  have a: "check_input exact (Number (- 0.1)) (fconst exact 1) (fconst exact 0, None) True
       = Inl ValueError"
      "ColorJitter_init exact (Number (- 0.1)) (Number 0) (Number 0) (Number 0) = Inl ValueError"
    using th1 neg by blast+
  have b: "check_input exact (Seq [1.5, 0.5]) (fconst exact 1) (fconst exact 0, None) True
       = Inl ValueError"
    using th1 by (simp add: exact_simps)
  have c: "check_input exact (Seq [- 0.6, 0.5]) (fconst exact 0)
        (fconst exact (- 0.5), Some (fconst exact 0.5)) False = Inl ValueError"
    using th2 by (simp add: exact_simps)
  have t: "ColorJitter_init exact (Seq [1, 2, 3]) (Number 0) (Number 0) (Number 0) = Inl TypeError"
    using th1 by simp
  have checks:
    "check_input exact (Number 0.25) (fconst exact 1) (fconst exact 0, None) True
       = Inr (brightness ?self)"
    "check_input exact (Number 0) (fconst exact 1) (fconst exact 0, None) True
       = Inr (contrast ?self)"
    "check_input exact (Seq [0.5, 1.5]) (fconst exact 1) (fconst exact 0, None) True
       = Inr (saturation ?self)"
    "check_input exact (Number 0.25) (fconst exact 0)
        (fconst exact (- 0.5), Some (fconst exact 0.5)) False = Inr (hue ?self)"
    by (simp_all add: check_input_def le_bound_def py_max_def exact_simps)
  have init: "ColorJitter_init exact (Number 0.25) (Number 0) (Seq [0.5, 1.5]) (Number 0.25)
       = Inr ?self"
    using th2 checks by blast
  have dflt: "ColorJitter_default exact = Inr ?none"
    using th1 by (simp add: exact_simps)
  have k: "jitter_step exact ?self ?d 1 [[(10, 20, 30)]] = [[(10, 20, 30)]]"
    using th1 by simp
  have r: "run (ColorJitter_generate_code exact ?none) (\<lambda>_. ?d) (\<lambda>_. [[[(10, 20, 30)]]]) 0
       = (\<lambda>_. [[[(10, 20, 30)]]], 0)"
    using th3 by simp
  from neg a b c t init dflt k r show ?thesis
    by blast
qed

section \<open>The jitters of the kernel\<close>

lemma map2_same: "map2 f xs (map g xs) = map (\<lambda>x. f x (g x)) xs"
  by (induction xs) simp_all

lemma blend_pointwise:
  "blend ops img (map (map f) img) ratio = map (map (\<lambda>px. blend_px ops px (f px) ratio)) img"
  by (simp add: blend_def map2_same)

lemma adjust_brightness_blend:
  "adjust_brightness ops img ratio = color_blend ops img (\<lambda>_. fconst ops 0) ratio"
  by (simp add: adjust_brightness_def broadcast_def blend_pointwise color_blend_def
      blend_px_def blend1_def)

lemma mean_gray: "mean ops (map (map (luma ops)) img) = gray_mean ops img"
proof -
  have "concat (map (map (luma ops)) img) = map (luma ops) (concat img)"
    by (simp add: map_concat)
  then show ?thesis
    by (simp add: mean_def gray_mean_def)
qed

lemma adjust_contrast_blend:
  "adjust_contrast ops img ratio = color_blend ops img (\<lambda>_. gray_mean ops img) ratio"
  by (simp add: adjust_contrast_def broadcast_def blend_pointwise color_blend_def
      blend_px_def blend1_def mean_gray)

lemma adjust_saturation_blend:
  "adjust_saturation ops img ratio
     = color_blend ops img (\<lambda>px. of_uint8 ops (to_uint8 ops (luma ops px))) ratio"
proof -
  have "to_float ops (map (map (\<lambda>l. (l, l, l))) (map (map (\<lambda>p. to_uint8 ops (luma ops p))) img))
        = map (map (\<lambda>px. (of_uint8 ops (to_uint8 ops (luma ops px)),
                           of_uint8 ops (to_uint8 ops (luma ops px)),
                           of_uint8 ops (to_uint8 ops (luma ops px))))) img"
    by (simp add: to_float_def comp_def)
  then show ?thesis
    by (simp add: adjust_saturation_def blend_pointwise color_blend_def blend_px_def blend1_def)
qed

lemma rotate_px_mat_vec: "rotate_px ops m v = mat_vec ops m v"
  by (cases m, cases v) (auto simp add: rotate_px_def mat_vec_def dot3_def)

lemma adjust_hue_shift: "adjust_hue ops img hue_factor = hue_shift ops img hue_factor"
  by (simp add: adjust_hue_def hue_shift_def hue_angle_def to_float_def Let_def comp_def
      rotate_px_mat_vec split_def)

lemma jitter_step_spec: "jitter_step ops self d k img = jitter_spec ops self d k img"
  by (auto simp add: jitter_step_def jitter_spec_def adjust_brightness_blend
      adjust_contrast_blend adjust_saturation_blend adjust_hue_shift split: option.splits)

lemma color_jitter_nth:
  assumes "i < length (\<sigma> images)"
  shows "fst (run (ColorJitter_generate_code ops self) draws \<sigma> images) images ! i
         = fold (jitter_spec ops self (draws i)) (fn_idx (draws i)) (\<sigma> images ! i)"
proof -
  have "jitter_step ops self (draws i) = jitter_spec ops self (draws i)"
    by (intro ext) (rule jitter_step_spec)
  with assms show ?thesis
    by (simp add: ColorJitter_generate_code_def color_jitter_def color_jitter_batch_def
        jitter_image_def)
qed

lemma color_jitter_length:
  "length (fst (run (ColorJitter_generate_code ops self) draws \<sigma> images) images)
     = length (\<sigma> images)"
  by (simp add: ColorJitter_generate_code_def color_jitter_def color_jitter_batch_def)

text \<open>
  C1 (as amended). The kernel emitted by \<^verbatim>\<open>ColorJitter.generate_code\<close> replaces image \<open>i\<close>
  of the batch by the result of the entries of its \<^verbatim>\<open>fn_idx\<close>, taken in order, and a
  brightness, contrast or saturation entry whose parameter is set is a color-space blend: the
  image becomes \<^verbatim>\<open>clip(ratio*img + (1-ratio)*other, 0, 255)\<close> cast to \<^verbatim>\<open>uint8\<close>, where
  \<^verbatim>\<open>other\<close> is 0 for brightness, the scalar mean of the grayscale image for contrast, and for
  saturation the grayscale value of the pixel cast to \<^verbatim>\<open>uint8\<close>, the same on all three
  channels, and \<^verbatim>\<open>ratio\<close> is what \<^verbatim>\<open>np.random.uniform\<close> returned for the configured
  \<^verbatim>\<open>(min, max)\<close> of that jitter. This holds whatever the floating-point operations compute.
\<close>

theorem jitter_is_color_blend:
  "length (fst (run (ColorJitter_generate_code ops self) draws \<sigma> images) images)
     = length (\<sigma> images) \<and>
   (i < length (\<sigma> images) \<longrightarrow>
      fst (run (ColorJitter_generate_code ops self) draws \<sigma> images) images ! i
        = fold (jitter_spec ops self (draws i)) (fn_idx (draws i)) (\<sigma> images ! i)) \<and>
   (brightness self = Some (lo, hi) \<longrightarrow>
      jitter_spec ops self d 0 img
        = color_blend ops img (\<lambda>_. fconst ops 0) (uniform_brightness d lo hi)) \<and>
   (contrast self = Some (lo, hi) \<longrightarrow>
      jitter_spec ops self d 1 img
        = color_blend ops img (\<lambda>_. gray_mean ops img) (uniform_contrast d lo hi)) \<and>
   (saturation self = Some (lo, hi) \<longrightarrow>
      jitter_spec ops self d 2 img
        = color_blend ops img (\<lambda>px. of_uint8 ops (to_uint8 ops (luma ops px)))
            (uniform_saturation d lo hi))"
  using color_jitter_nth [of i \<sigma> images ops self draws]
  by (simp add: color_jitter_length jitter_spec_def)

lemmas blend_eval =
  jitter_spec_def color_blend_def gray_mean_def luma_def uniform_at_def exact_simps

theorem jitter_is_color_blend_witness:
  "(0 :: nat) < length [[[(100, 200, 50), (0, 0, 8)]] :: image]
   \<and> fst (run (ColorJitter_generate_code exact
             \<lparr>brightness = Some (0.75, 1.25), contrast = Some (0.75, 1.25),
              saturation = Some (0.5, 1.5), hue = None\<rparr>)
        (\<lambda>_. \<lparr>fn_idx = [2, 0, 3, 1], uniform_brightness = uniform_at 0,
               uniform_contrast = uniform_at 0.25, uniform_saturation = uniform_at 0.75,
               uniform_hue = uniform_at 0.5\<rparr>)
        (\<lambda>_. [[[(100, 200, 50), (0, 0, 8)]]]) 0) 0 ! 0
       = [[(64, 146, 22), (7, 7, 13)]]
   \<and> color_blend exact [[(100, 200, 50), (0, 0, 8)]]
        (\<lambda>px. of_uint8 exact (to_uint8 exact (luma exact px))) (uniform_at 0.75 0.5 1.5)
       = [[(87, 212, 24), (0, 0, 10)]]
   \<and> color_blend exact [[(87, 212, 24), (0, 0, 10)]] (\<lambda>_. fconst exact 0) (uniform_at 0 0.75 1.25)
       = [[(65, 159, 18), (0, 0, 7)]]
   \<and> color_blend exact [[(65, 159, 18), (0, 0, 7)]]
        (\<lambda>_. gray_mean exact [[(65, 159, 18), (0, 0, 7)]]) (uniform_at 0.25 0.75 1.25)
       = [[(64, 146, 22), (7, 7, 13)]]"
proof -
  let ?self = "\<lparr>brightness = Some (0.75, 1.25), contrast = Some (0.75, 1.25),
                saturation = Some (0.5, 1.5), hue = None :: (real \<times> real) option\<rparr>"
  let ?d = "\<lparr>fn_idx = [2, 0, 3, 1], uniform_brightness = uniform_at 0,
             uniform_contrast = uniform_at 0.25, uniform_saturation = uniform_at 0.75,
             uniform_hue = uniform_at 0.5\<rparr>"
  let ?img = "[[(100, 200, 50), (0, 0, 8)]] :: image"
  note th = jitter_is_color_blend
    [where ops = exact and self = ?self and draws = "\<lambda>_. ?d" and \<sigma> = "\<lambda>_. [?img]"
       and images = 0 and i = 0 and d = ?d]
  have s: "jitter_spec exact ?self ?d 2 ?img = [[(87, 212, 24), (0, 0, 10)]]"
    by (simp add: blend_eval)
  have b: "jitter_spec exact ?self ?d 0 [[(87, 212, 24), (0, 0, 10)]]
           = [[(65, 159, 18), (0, 0, 7)]]"
    by (simp add: blend_eval)
  have h: "jitter_spec exact ?self ?d 3 [[(65, 159, 18), (0, 0, 7)]]
           = [[(65, 159, 18), (0, 0, 7)]]"
    by (simp add: jitter_spec_def)
  have c: "jitter_spec exact ?self ?d 1 [[(65, 159, 18), (0, 0, 7)]]
           = [[(64, 146, 22), (7, 7, 13)]]"
    by (simp add: blend_eval)
  have f: "fold (jitter_spec exact ?self ?d) [2, 0, 3, 1] ?img = [[(64, 146, 22), (7, 7, 13)]]"
    by (simp only: fold_simps s b h c id_apply comp_apply)
  have k: "fst (run (ColorJitter_generate_code exact ?self) (\<lambda>_. ?d) (\<lambda>_. [?img]) 0) 0 ! 0
           = [[(64, 146, 22), (7, 7, 13)]]"
    using th f by simp
  have s': "color_blend exact ?img
        (\<lambda>px. of_uint8 exact (to_uint8 exact (luma exact px))) (uniform_at 0.75 0.5 1.5)
       = [[(87, 212, 24), (0, 0, 10)]]"
    using th [where img = ?img and lo = "0.5" and hi = "1.5"] s by simp
  have b': "color_blend exact [[(87, 212, 24), (0, 0, 10)]] (\<lambda>_. fconst exact 0)
        (uniform_at 0 0.75 1.25) = [[(65, 159, 18), (0, 0, 7)]]"
    using th [where img = "[[(87, 212, 24), (0, 0, 10)]]" and lo = "0.75" and hi = "1.25"] b
    by simp
  have c': "color_blend exact [[(65, 159, 18), (0, 0, 7)]]
        (\<lambda>_. gray_mean exact [[(65, 159, 18), (0, 0, 7)]]) (uniform_at 0.25 0.75 1.25)
       = [[(64, 146, 22), (7, 7, 13)]]"
    using th [where img = "[[(65, 159, 18), (0, 0, 7)]]" and lo = "0.75" and hi = "1.25"] c
    by simp
  from k s' b' c' show ?thesis
    by simp
qed

text \<open>
  With the uncast grayscale value as \<^verbatim>\<open>other\<close> the saturation blend gives another image:
  for the pixel \<open>(0, 0, 7)\<close> and the ratio 0.7 the grayscale value is 0.798, which the kernel
  casts to 0 before blending, so that it stores the blue value 4 where the uncast value
  gives 5.
\<close>

theorem saturation_blend_counterexample:
  "fst (run (ColorJitter_generate_code exact
          \<lparr>brightness = None, contrast = None, saturation = Some (0.7, 1.3), hue = None\<rparr>)
     (\<lambda>_. \<lparr>fn_idx = [2, 0, 3, 1], uniform_brightness = uniform_at 0,
            uniform_contrast = uniform_at 0, uniform_saturation = uniform_at 0,
            uniform_hue = uniform_at 0\<rparr>)
     (\<lambda>_. [[[(0, 0, 7)]]]) 0) 0
     = [[[(0, 0, 4)]]]
   \<and> color_blend exact [[(0, 0, 7)]] (luma exact) (uniform_at 0 0.7 1.3) = [[(0, 0, 5)]]"
proof -
  let ?self = "\<lparr>brightness = None, contrast = None, saturation = Some (0.7, 1.3),
                hue = None :: (real \<times> real) option\<rparr>"
  let ?d = "\<lparr>fn_idx = [2, 0, 3, 1], uniform_brightness = uniform_at 0,
             uniform_contrast = uniform_at 0, uniform_saturation = uniform_at 0,
             uniform_hue = uniform_at 0\<rparr>"
  have s: "jitter_step exact ?self ?d 2 [[(0, 0, 7)]] = [[(0, 0, 4)]]"
    by (simp add: jitter_step_spec blend_eval)
  have n: "jitter_step exact ?self ?d 0 img = img" "jitter_step exact ?self ?d 3 img = img"
    "jitter_step exact ?self ?d 1 img = img" for img
    by (simp_all add: jitter_step_def)
  have "jitter_image exact ?self ?d [[(0, 0, 7)]] = [[(0, 0, 4)]]"
    unfolding jitter_image_def by (simp only: jitter_draws.simps fold_simps s n id_apply comp_apply)
  then have "color_jitter_batch exact ?self (\<lambda>_. ?d) [[[(0, 0, 7)]]] = [[[(0, 0, 4)]]]"
    by (simp add: color_jitter_batch_def)
  moreover have "color_blend exact [[(0, 0, 7)]] (luma exact) (uniform_at 0 0.7 1.3)
                 = [[(0, 0, 5)]]"
    by (simp add: blend_eval)
  ultimately show ?thesis
    by (simp add: ColorJitter_generate_code_def color_jitter_def)
qed

section \<open>The hue jitter\<close>

text \<open>
  C2. The kernel emitted by \<^verbatim>\<open>ColorJitter.generate_code\<close> replaces image \<open>i\<close> of the batch
  by the result of the entries of its \<^verbatim>\<open>fn_idx\<close>, taken in order, and the hue entry, when
  the hue parameter is set, is \<open>hue_shift\<close>: every pixel is scaled to \<open>[0, 1]\<close>, multiplied
  by the matrix built from the cosine and sine of the angle \<^verbatim>\<open>hue_factor * 2 * pi\<close>, scaled by
  255, clipped to \<open>[0, 255]\<close> and stored as \<^verbatim>\<open>uint8\<close>, where \<^verbatim>\<open>hue_factor\<close> is what
  \<^verbatim>\<open>np.random.uniform\<close> returned for the configured hue range. This holds whatever the
  floating-point operations compute.
\<close>

theorem hue_jitter_rotation:
  "length (fst (run (ColorJitter_generate_code ops self) draws \<sigma> images) images)
     = length (\<sigma> images) \<and>
   (i < length (\<sigma> images) \<longrightarrow>
      fst (run (ColorJitter_generate_code ops self) draws \<sigma> images) images ! i
        = fold (jitter_spec ops self (draws i)) (fn_idx (draws i)) (\<sigma> images ! i)) \<and>
   (hue self = Some (lo, hi) \<longrightarrow>
      jitter_spec ops self d 3 img = hue_shift ops img (uniform_hue d lo hi)) \<and>
   hue_shift ops [[(r, g, b)]] hue_factor
     = (case mat_vec ops
              (hue_rotation_matrix ops
                 (fcos ops (fmul ops (fmul ops hue_factor (fconst ops 2)) (fpi ops)))
                 (fsin ops (fmul ops (fmul ops hue_factor (fconst ops 2)) (fpi ops))))
              (fdiv ops (of_uint8 ops r) (fconst ops 255),
               fdiv ops (of_uint8 ops g) (fconst ops 255),
               fdiv ops (of_uint8 ops b) (fconst ops 255)) of
          (x, y, z) \<Rightarrow>
            [[(to_uint8 ops (fclip ops (fmul ops x (fconst ops 255)) (fconst ops 0) (fconst ops 255)),
               to_uint8 ops (fclip ops (fmul ops y (fconst ops 255)) (fconst ops 0) (fconst ops 255)),
               to_uint8 ops (fclip ops (fmul ops z (fconst ops 255)) (fconst ops 0) (fconst ops 255)))]])"
  using color_jitter_nth [of i \<sigma> images ops self draws]
  by (simp add: color_jitter_length jitter_spec_def hue_shift_def hue_angle_def split_def)

lemma sqrt_third_bounds: "577 / 1000 < sqrt (1 / 3)" "sqrt (1 / 3) < 578 / 1000"
proof -
  have "(577 / 1000 :: real)\<^sup>2 < 1 / 3"
    by (simp add: power2_eq_square)
  then show "577 / 1000 < sqrt (1 / 3)"
    by (rule real_less_rsqrt)
  have "(1 / 3 :: real) < (578 / 1000)\<^sup>2"
    by (simp add: power2_eq_square)
  then show "sqrt (1 / 3) < 578 / 1000"
    by (intro real_less_lsqrt) simp_all
qed

lemma to_uint8_exact_clip:
  assumes "of_int n \<le> x" and "x < of_int n + 1" and "0 \<le> n" and "n < 255"
  shows "to_uint8 exact (fclip exact x 0 255) = word_of_int n"
proof -
  from assms have "\<lfloor>x\<rfloor> = n"
    by (intro floor_unique) simp_all
  moreover from assms have "0 \<le> x" "x \<le> 255"
    by linarith+
  ultimately show ?thesis
    by (simp add: exact_simps)
qed

lemma to_uint8_exact_clip_neg:
  assumes "x \<le> 0"
  shows "to_uint8 exact (fclip exact x 0 255) = 0"
  using assms by (simp add: exact_simps max_def)

lemma hue_shift_quarter: "hue_shift exact [[(100, 0, 0)]] (1 / 4) = [[(33, 91, 0)]]"
proof -
  define q where "q = sqrt (1 / 3 :: real)"
  have q: "577 / 1000 < q" "q < 578 / 1000"
    unfolding q_def by (rule sqrt_third_bounds)+
  have a: "hue_angle exact (1 / 4) = pi / 2"
    by (simp add: hue_angle_def exact_simps)
  have m: "hue_rotation_matrix exact 0 1
           = ((1 / 3, 1 / 3 - q, 1 / 3 + q), (1 / 3 + q, 1 / 3, 1 / 3 - q),
              (1 / 3 - q, 1 / 3 + q, 1 / 3))"
    by (simp add: hue_rotation_matrix_def exact_simps q_def Let_def)
  have x: "to_uint8 exact (fclip exact (100 / 255 * (1 / 3) * 255) 0 255) = 33"
    using to_uint8_exact_clip [of 33 "100 / 255 * (1 / 3) * 255"] by simp
  have y: "to_uint8 exact (fclip exact (100 / 255 * (1 / 3 + q) * 255) 0 255) = 91"
    using to_uint8_exact_clip [of 91 "100 / 255 * (1 / 3 + q) * 255"] q by simp
  have z: "to_uint8 exact (fclip exact (100 / 255 * (1 / 3 - q) * 255) 0 255) = 0"
    using to_uint8_exact_clip_neg [of "100 / 255 * (1 / 3 - q) * 255"] q by simp
  have "hue_shift exact [[(100, 0, 0)]] (1 / 4)
        = [[(to_uint8 exact (fclip exact (100 / 255 * (1 / 3) * 255) 0 255),
             to_uint8 exact (fclip exact (100 / 255 * (1 / 3 + q) * 255) 0 255),
             to_uint8 exact (fclip exact (100 / 255 * (1 / 3 - q) * 255) 0 255))]]"
    unfolding hue_shift_def a
    by (simp add: exact_simps(13,14) m mat_vec_def dot3_def)
       (simp add: exact_simps(1-6))
  with x y z show ?thesis
    by simp
qed

theorem hue_jitter_rotation_witness:
  "(0 :: nat) < length [[[(100, 0, 0)]] :: image]
   \<and> uniform_at 0.75 (- 0.5) 0.5 = 1 / 4
   \<and> fst (run (ColorJitter_generate_code exact
             \<lparr>brightness = None, contrast = None, saturation = None, hue = Some (- 0.5, 0.5)\<rparr>)
        (\<lambda>_. \<lparr>fn_idx = [3, 1, 0, 2], uniform_brightness = uniform_at 0,
               uniform_contrast = uniform_at 0, uniform_saturation = uniform_at 0,
               uniform_hue = uniform_at 0.75\<rparr>)
        (\<lambda>_. [[[(100, 0, 0)]]]) 0) 0 ! 0
       = [[(33, 91, 0)]]"
proof -
  let ?self = "\<lparr>brightness = None, contrast = None, saturation = None,
                hue = Some (- 0.5 :: real, 0.5)\<rparr>"
  let ?d = "\<lparr>fn_idx = [3, 1, 0, 2], uniform_brightness = uniform_at 0,
             uniform_contrast = uniform_at 0, uniform_saturation = uniform_at 0,
             uniform_hue = uniform_at 0.75\<rparr>"
  note th = hue_jitter_rotation
    [where ops = exact and self = ?self and draws = "\<lambda>_. ?d" and \<sigma> = "\<lambda>_. [[[(100, 0, 0)]]]"
       and images = 0 and i = 0 and d = ?d and lo = "- 0.5" and hi = "0.5"]
  have u: "uniform_at 0.75 (- 0.5) 0.5 = 1 / 4"
    by (simp add: uniform_at_def)
  have hs: "hue ?self = Some (- 0.5, 0.5)"
    by simp
  from th [where img = "[[(100, 0, 0)]]"] hs
  have e: "jitter_spec exact ?self ?d 3 [[(100, 0, 0)]]
           = hue_shift exact [[(100, 0, 0)]] (uniform_hue ?d (- 0.5) 0.5)"
    by blast
  have "uniform_hue ?d (- 0.5) 0.5 = 1 / 4"
    by (simp add: uniform_at_def)
  with e have h: "jitter_spec exact ?self ?d 3 [[(100, 0, 0)]] = [[(33, 91, 0)]]"
    by (simp only: hue_shift_quarter)
  have n: "jitter_spec exact ?self ?d 1 img = img" "jitter_spec exact ?self ?d 0 img = img"
    "jitter_spec exact ?self ?d 2 img = img" for img
    by (simp_all add: jitter_spec_def)
  have f: "fold (jitter_spec exact ?self ?d) [3, 1, 0, 2] [[(100, 0, 0)]] = [[(33, 91, 0)]]"
    by (simp only: fold_simps h n id_apply comp_apply)
  have "fst (run (ColorJitter_generate_code exact ?self) (\<lambda>_. ?d) (\<lambda>_. [[[(100, 0, 0)]]]) 0) 0 ! 0
        = [[(33, 91, 0)]]"
    using th f by (simp del: One_nat_def)
  with u show ?thesis
    by simp
qed

subsection \<open>The matrix in exact arithmetic\<close>

text \<open>
  Read over the real numbers, the matrix of the kernel is the rotation about the gray axis by
  the angle: it is Rodrigues' matrix for the axis \<open>(1, 1, 1) / sqrt 3\<close>, its rows are
  orthonormal and it maps every gray pixel to itself.
\<close>

lemma sqrt_third: "sqrt (1 / 3) = 1 / sqrt 3"
  by (simp add: real_sqrt_divide)

lemma hue_rotation_matrix_exact:
  "hue_rotation_matrix exact (cos \<theta>) (sin \<theta>) = hue_rotation \<theta>"
proof -
  have a: "x * (1 / sqrt 3) * (1 / sqrt 3) = x / 3" for x :: real
    by simp
  show ?thesis
    unfolding hue_rotation_matrix_def hue_rotation_def axis_rotation_def gray_axis_def
      exact_simps sqrt_third Let_def
    by (simp add: a)
qed

lemma hue_rotation_gray: "mat_vec exact (hue_rotation \<theta>) (c, c, c) = (c, c, c)"
  unfolding hue_rotation_def axis_rotation_def gray_axis_def mat_vec_def dot3_def exact_simps
  by (simp add: algebra_simps)

lemma rot_orth:
  fixes c s q :: real
  assumes cs: "c * c + s * s = 1" and q: "q * q = 1 / 3"
  defines "d \<equiv> c + (1 - c) / 3" and "m \<equiv> 1 / 3 * (1 - c) - q * s"
      and "p \<equiv> 1 / 3 * (1 - c) + q * s"
  shows "d * d + m * m + p * p = 1" and "d * p + m * d + p * m = 0"
proof -
  have q3: "q * q * 3 = 1" using q by simp
  have d: "3 * d = c * 3 + (1 - c)" by (simp add: d_def field_simps)
  have m: "3 * m = (1 - c) - 3 * q * s" by (simp add: m_def field_simps)
  have p: "3 * p = (1 - c) + 3 * q * s" by (simp add: p_def field_simps)
  have "(3 * d) * (3 * d) + (3 * m) * (3 * m) + (3 * p) * (3 * p) = 9"
    unfolding d m p using cs q3 by algebra
  then show "d * d + m * m + p * p = 1" by simp
  have "(3 * d) * (3 * p) + (3 * m) * (3 * d) + (3 * p) * (3 * m) = 0"
    unfolding d m p using cs q3 by algebra
  then show "d * p + m * d + p * m = 0" by simp
qed

lemma hue_rotation_orthonormal:
  "case hue_rotation \<theta> of (r0, r1, r2) \<Rightarrow>
     dot3 exact r0 r0 = 1 \<and> dot3 exact r1 r1 = 1 \<and> dot3 exact r2 r2 = 1 \<and>
     dot3 exact r0 r1 = 0 \<and> dot3 exact r0 r2 = 0 \<and> dot3 exact r1 r2 = 0"
proof -
  define d where "d = cos \<theta> + (1 - cos \<theta>) / 3"
  define m where "m = 1 / 3 * (1 - cos \<theta>) - sqrt (1 / 3) * sin \<theta>"
  define p where "p = 1 / 3 * (1 - cos \<theta>) + sqrt (1 / 3) * sin \<theta>"
  have cs: "cos \<theta> * cos \<theta> + sin \<theta> * sin \<theta> = 1"
    using sin_cos_squared_add2 [of \<theta>] by (simp add: power2_eq_square)
  have q: "sqrt (1 / 3) * sqrt (1 / 3) = 1 / 3"
    by simp
  have o: "d * d + m * m + p * p = 1" "d * p + m * d + p * m = 0"
    unfolding d_def m_def p_def by (rule rot_orth [OF cs q])+
  have "hue_rotation \<theta> = ((d, m, p), (p, d, m), (m, p, d))"
    unfolding hue_rotation_matrix_exact [symmetric] hue_rotation_matrix_def exact_simps Let_def
    by (simp add: d_def m_def p_def)
  moreover have "d * m + m * p + p * d = 0" "p * m + d * p + m * d = 0"
    "p * p + d * d + m * m = 1" "m * m + p * p + d * d = 1"
    using o by (simp_all add: algebra_simps)
  ultimately show ?thesis
    using o by (simp add: dot3_def exact_simps algebra_simps)
qed

section \<open>In-place update, shapes and value ranges\<close>

lemma unat_uint8_le: "unat (w :: uint8) \<le> 255"
  using unsigned_less [of w, where ?'a = nat] by simp

lemma pixels_in_range_always: "pixels_in_range images"
  by (simp add: pixels_in_range_def list_all_iff split_def unat_uint8_le)

lemma of_uint8_exact_range: "0 \<le> of_uint8 exact v" "of_uint8 exact v \<le> 255"
proof -
  show "0 \<le> of_uint8 exact v"
    unfolding exact_simps by (rule of_nat_0_le_iff)
  have "real (unat v) \<le> real 255"
    using unat_uint8_le [of v] by (simp only: of_nat_le_iff)
  then show "of_uint8 exact v \<le> 255"
    unfolding exact_simps by simp
qed

lemma luma_exact_range: "0 \<le> luma exact px" "luma exact px < 255"
proof -
  obtain r g b where px: "px = (r, g, b)" by (cases px)
  have l: "luma exact px
           = 0.2989 * of_uint8 exact r + 0.587 * of_uint8 exact g + 0.114 * of_uint8 exact b"
    by (simp add: px luma_def exact_simps(1,3,5))
  show "0 \<le> luma exact px"
    using of_uint8_exact_range(1) [of r] of_uint8_exact_range(1) [of g]
      of_uint8_exact_range(1) [of b]
    unfolding l by simp
  show "luma exact px < 255"
    using of_uint8_exact_range [of r] of_uint8_exact_range [of g] of_uint8_exact_range [of b]
    unfolding l by simp
qed

lemma fclip_exact_range: "0 \<le> fclip exact y 0 255" "fclip exact y 0 255 \<le> 255"
  by (simp_all add: exact_simps)

lemma to_uint8_exact:
  assumes "0 \<le> x" and "x < 256"
  shows "unat (to_uint8 exact x) = nat \<lfloor>x\<rfloor>"
proof -
  from assms have f: "0 \<le> \<lfloor>x\<rfloor>" "\<lfloor>x\<rfloor> < 256"
    by (simp_all add: floor_less_iff)
  then have "unat (word_of_int \<lfloor>x\<rfloor> :: uint8) = nat \<lfloor>x\<rfloor>"
    by (simp add: unat_eq_nat_uint uint_word_of_int)
  with assms show ?thesis
    by (simp add: exact_simps)
qed

lemma jitter_step_shape: "map length (jitter_step ops self d k img) = map length img"
  by (simp add: jitter_step_spec jitter_spec_def color_blend_def hue_shift_def split_def
      split: option.splits)

lemma jitter_image_shape: "map length (jitter_image ops self d img) = map length img"
proof -
  have "map length (fold (jitter_step ops self d) ks img) = map length img" for ks
    by (induction ks arbitrary: img) (simp_all add: jitter_step_shape)
  then show ?thesis
    by (simp add: jitter_image_def)
qed

lemma color_jitter_batch_shape:
  "batch_shape (color_jitter_batch ops self draws images) = batch_shape images"
  by (rule nth_equalityI) (simp_all add: batch_shape_def color_jitter_batch_def jitter_image_shape)

lemma to_grayscale_gray_image: "to_grayscale ops img = gray_image ops img"
  by (simp add: to_grayscale_def gray_image_def comp_def)

lemma rgb_to_grayscale_batch_shape:
  "batch_shape (rgb_to_grayscale_batch ops p rand images) = batch_shape images"
  by (rule nth_equalityI)
    (simp_all add: batch_shape_def rgb_to_grayscale_batch_def to_grayscale_gray_image
      gray_image_def)

text \<open>
  C9. The kernels of ColorJitter and RandomGrayscale return the reference of the batch they
  were given and change the store at that reference only. The updated batch has the shape of
  the old one, and so has an image after each single jitter and after the grayscale
  conversion. Its elements are bytes, values of \<open>[0, 255]\<close>; and in exact arithmetic every
  float the kernels cast to \<^verbatim>\<open>uint8\<close>, a clipped blend or hue value or a luma value, lies
  in \<open>[0, 255]\<close>, so that the cast stores its integer part and never wraps around.
\<close>

theorem kernels_update_in_place:
  "snd (color_jitter ops self draws \<sigma> images) = images \<and>
   (\<forall>r. r \<noteq> images \<longrightarrow> fst (color_jitter ops self draws \<sigma> images) r = \<sigma> r) \<and>
   batch_shape (fst (color_jitter ops self draws \<sigma> images) images) = batch_shape (\<sigma> images) \<and>
   pixels_in_range (fst (color_jitter ops self draws \<sigma> images) images) \<and>
   map length (jitter_step ops self d k img) = map length img \<and>
   pixels_in_range [jitter_step ops self d k img] \<and>
   snd (rgb_to_grayscale ops p rand \<sigma> images) = images \<and>
   (\<forall>r. r \<noteq> images \<longrightarrow> fst (rgb_to_grayscale ops p rand \<sigma> images) r = \<sigma> r) \<and>
   batch_shape (fst (rgb_to_grayscale ops p rand \<sigma> images) images) = batch_shape (\<sigma> images) \<and>
   pixels_in_range (fst (rgb_to_grayscale ops p rand \<sigma> images) images) \<and>
   map length (to_grayscale ops img) = map length img \<and>
   (0 \<le> fclip exact y 0 255 \<and> fclip exact y 0 255 \<le> 255
    \<and> unat (to_uint8 exact (fclip exact y 0 255)) = nat \<lfloor>fclip exact y 0 255\<rfloor>) \<and>
   (0 \<le> luma exact px \<and> luma exact px < 255
    \<and> unat (to_uint8 exact (luma exact px)) = nat \<lfloor>luma exact px\<rfloor>)"
proof -
  have cj: "batch_shape (fst (color_jitter ops self draws \<sigma> images) images)
            = batch_shape (\<sigma> images)"
    by (simp add: color_jitter_def color_jitter_batch_shape)
  have rg: "batch_shape (fst (rgb_to_grayscale ops p rand \<sigma> images) images)
            = batch_shape (\<sigma> images)"
    by (simp add: rgb_to_grayscale_def rgb_to_grayscale_batch_shape)
  have c: "unat (to_uint8 exact (fclip exact y 0 255)) = nat \<lfloor>fclip exact y 0 255\<rfloor>"
    using fclip_exact_range [of y] by (intro to_uint8_exact) simp_all
  have l: "unat (to_uint8 exact (luma exact px)) = nat \<lfloor>luma exact px\<rfloor>"
    using luma_exact_range [of px] by (intro to_uint8_exact) simp_all
  have g: "map length (to_grayscale ops img) = map length img"
    by (simp add: to_grayscale_gray_image gray_image_def)
  from cj rg c l g show ?thesis
    using fclip_exact_range [of y] luma_exact_range [of px]
    by (simp add: color_jitter_def rgb_to_grayscale_def pixels_in_range_always
        jitter_step_shape)
qed

lemma upt_2: "[0..<2] = [0, 1]"
  by (simp add: upt_rec)

theorem kernels_update_in_place_witness:
  "(1 :: ref) \<noteq> 0
   \<and> color_jitter exact
        \<lparr>brightness = None, contrast = None, saturation = Some (0.7, 1.3), hue = None\<rparr>
        (\<lambda>_. \<lparr>fn_idx = [2, 0, 3, 1], uniform_brightness = uniform_at (1 / 4),
               uniform_contrast = uniform_at (3 / 4), uniform_saturation = uniform_at 0,
               uniform_hue = uniform_at (1 / 2)\<rparr>)
        ((\<lambda>_. [])(0 := [[[(100, 200, 50), (0, 0, 7)]], [[(0, 0, 7), (255, 255, 255)]]],
                    1 := [[[(1, 2, 3)]]])) 0
       = ((\<lambda>_. [])(0 := [[[(115, 185, 80), (0, 0, 4)]], [[(0, 0, 4), (254, 254, 254)]]],
                      1 := [[[(1, 2, 3)]]]), 0)
   \<and> rgb_to_grayscale exact 0.1 (\<lambda>i. if i = 0 then 0.05 else 0.5)
        ((\<lambda>_. [])(0 := [[[(100, 200, 50), (0, 0, 7)]], [[(0, 0, 7), (255, 255, 255)]]],
                    1 := [[[(1, 2, 3)]]])) 0
       = ((\<lambda>_. [])(0 := [[[(152, 152, 152), (0, 0, 0)]], [[(0, 0, 7), (255, 255, 255)]]],
                      1 := [[[(1, 2, 3)]]]), 0)
   \<and> fst (color_jitter exact
        \<lparr>brightness = None, contrast = None, saturation = Some (0.7, 1.3), hue = None\<rparr>
        (\<lambda>_. \<lparr>fn_idx = [2, 0, 3, 1], uniform_brightness = uniform_at (1 / 4),
               uniform_contrast = uniform_at (3 / 4), uniform_saturation = uniform_at 0,
               uniform_hue = uniform_at (1 / 2)\<rparr>)
        ((\<lambda>_. [])(0 := [[[(100, 200, 50), (0, 0, 7)]], [[(0, 0, 7), (255, 255, 255)]]],
                    1 := [[[(1, 2, 3)]]])) 0) 1 = [[[(1, 2, 3)]]]
   \<and> batch_shape (fst (rgb_to_grayscale exact 0.1 (\<lambda>i. if i = 0 then 0.05 else 0.5)
        ((\<lambda>_. [])(0 := [[[(100, 200, 50), (0, 0, 7)]], [[(0, 0, 7), (255, 255, 255)]]],
                    1 := [[[(1, 2, 3)]]])) 0) 0) = [[2], [2]]"
proof -
  let ?self = "\<lparr>brightness = None, contrast = None, saturation = Some (0.7 :: real, 1.3),
                hue = None\<rparr>"
  let ?d = "\<lparr>fn_idx = [2, 0, 3, 1], uniform_brightness = uniform_at (1 / 4),
               uniform_contrast = uniform_at (3 / 4), uniform_saturation = uniform_at 0,
               uniform_hue = uniform_at (1 / 2)\<rparr>"
  let ?rand = "\<lambda>i :: nat. if i = 0 then 0.05 else 0.5 :: real"
  let ?b = "[[[(100, 200, 50), (0, 0, 7)]], [[(0, 0, 7), (255, 255, 255)]]] :: batch"
  let ?\<sigma> = "(\<lambda>_. [])(0 := ?b, 1 := [[[(1, 2, 3)]]]) :: batch store"
  note th = kernels_update_in_place
    [where ops = exact and self = ?self and draws = "\<lambda>_. ?d" and \<sigma> = ?\<sigma> and images = 0
       and p = "0.1" and rand = ?rand]
  have s1: "jitter_spec exact ?self ?d 2 [[(100, 200, 50), (0, 0, 7)]]
            = [[(115, 185, 80), (0, 0, 4)]]"
    by (simp add: blend_eval)
  have s2: "jitter_spec exact ?self ?d 2 [[(0, 0, 7), (255, 255, 255)]]
            = [[(0, 0, 4), (254, 254, 254)]]"
    by (simp add: blend_eval)
  have n: "jitter_spec exact ?self ?d 0 img = img" "jitter_spec exact ?self ?d 3 img = img"
    "jitter_spec exact ?self ?d 1 img = img" for img
    by (simp_all add: jitter_spec_def)
  have j1: "jitter_image exact ?self ?d [[(100, 200, 50), (0, 0, 7)]]
            = [[(115, 185, 80), (0, 0, 4)]]"
    unfolding jitter_image_def jitter_step_spec [abs_def]
    by (simp only: jitter_draws.simps fold_simps s1 n id_apply comp_apply)
  have j2: "jitter_image exact ?self ?d [[(0, 0, 7), (255, 255, 255)]]
            = [[(0, 0, 4), (254, 254, 254)]]"
    unfolding jitter_image_def jitter_step_spec [abs_def]
    by (simp only: jitter_draws.simps fold_simps s2 n id_apply comp_apply)
  have cj: "color_jitter_batch exact ?self (\<lambda>_. ?d) ?b
            = [[[(115, 185, 80), (0, 0, 4)]], [[(0, 0, 4), (254, 254, 254)]]]"
    unfolding color_jitter_batch_def by (simp add: upt_2 j1 j2 del: One_nat_def)
  have g: "to_grayscale exact [[(100, 200, 50), (0, 0, 7)]] = [[(152, 152, 152), (0, 0, 0)]]"
    by (simp add: to_grayscale_def luma_def exact_simps)
  have rg: "rgb_to_grayscale_batch exact 0.1 ?rand ?b
            = [[[(152, 152, 152), (0, 0, 0)]], [[(0, 0, 7), (255, 255, 255)]]]"
    by (simp add: rgb_to_grayscale_batch_def upt_2 g exact_simps)
  have s0: "?\<sigma> 0 = ?b"
    by simp
  have a: "color_jitter exact ?self (\<lambda>_. ?d) ?\<sigma> 0
       = ((\<lambda>_. [])(0 := [[[(115, 185, 80), (0, 0, 4)]], [[(0, 0, 4), (254, 254, 254)]]],
                      1 := [[[(1, 2, 3)]]]), 0)"
    unfolding color_jitter_def s0 cj by (simp add: fun_upd_twist)
  have b: "rgb_to_grayscale exact 0.1 ?rand ?\<sigma> 0
       = ((\<lambda>_. [])(0 := [[[(152, 152, 152), (0, 0, 0)]], [[(0, 0, 7), (255, 255, 255)]]],
                      1 := [[[(1, 2, 3)]]]), 0)"
    unfolding rgb_to_grayscale_def s0 rg by (simp add: fun_upd_twist)
  have c: "fst (color_jitter exact ?self (\<lambda>_. ?d) ?\<sigma> 0) 1 = [[[(1, 2, 3)]]]"
    using th by simp
  have d: "batch_shape (fst (rgb_to_grayscale exact 0.1 ?rand ?\<sigma> 0) 0) = [[2], [2]]"
    using th by (simp add: batch_shape_def)
  from a b c d show ?thesis
    by simp
qed

section \<open>The random grayscale conversion\<close>

lemma rgb_to_grayscale_batch_nth:
  assumes "i < length images"
  shows "rgb_to_grayscale_batch ops p rand images ! i
         = (if flt ops (rand i) p then gray_image ops (images ! i) else images ! i)"
  using assms by (simp add: rgb_to_grayscale_batch_def to_grayscale_gray_image)

lemma gray_image_channels_equal:
  "list_all (list_all (\<lambda>(r, g, b). r = g \<and> g = b)) (gray_image ops img)"
  by (simp add: gray_image_def list_all_iff)

text \<open>
  C10. The kernel emitted by \<^verbatim>\<open>RandomGrayscale.generate_code\<close> keeps the number of images,
  and image \<open>i\<close> of the batch depends on image \<open>i\<close> and on entry \<open>i\<close> of
  \<^verbatim>\<open>np.random.rand\<close> only: it is converted when that sample is below \<open>p\<close> and left as it
  is otherwise. The conversion puts the luma value \<^verbatim>\<open>0.2989*R + 0.587*G + 0.114*B\<close>, cast to
  \<^verbatim>\<open>uint8\<close>, in all three channels of every pixel, which are therefore equal. This holds
  whatever the floating-point operations compute.
\<close>

theorem random_grayscale_per_image:
  "length (fst (run (RandomGrayscale_generate_code ops rg) rand \<sigma> images) images)
     = length (\<sigma> images) \<and>
   (i < length (\<sigma> images) \<longrightarrow>
      fst (run (RandomGrayscale_generate_code ops rg) rand \<sigma> images) images ! i
        = (if flt ops (rand i) (RandomGrayscale_p rg) then gray_image ops (\<sigma> images ! i)
           else \<sigma> images ! i)) \<and>
   gray_image ops [[(r, g, b)]]
     = [[(to_uint8 ops (luma ops (r, g, b)), to_uint8 ops (luma ops (r, g, b)),
          to_uint8 ops (luma ops (r, g, b)))]] \<and>
   luma ops (r, g, b)
     = fadd ops (fadd ops (fmul ops (fconst ops 0.2989) (of_uint8 ops r))
                          (fmul ops (fconst ops 0.587) (of_uint8 ops g)))
                (fmul ops (fconst ops 0.114) (of_uint8 ops b)) \<and>
   map length (gray_image ops img) = map length img \<and>
   list_all (list_all (\<lambda>(r, g, b). r = g \<and> g = b)) (gray_image ops img)"
proof -
  have len: "length (fst (run (RandomGrayscale_generate_code ops rg) rand \<sigma> images) images)
     = length (\<sigma> images)"
    by (simp add: RandomGrayscale_generate_code_def rgb_to_grayscale_def
        rgb_to_grayscale_batch_def)
  have run: "i < length (\<sigma> images) \<longrightarrow>
      fst (run (RandomGrayscale_generate_code ops rg) rand \<sigma> images) images ! i
        = (if flt ops (rand i) (RandomGrayscale_p rg) then gray_image ops (\<sigma> images ! i)
           else \<sigma> images ! i)"
    by (simp add: RandomGrayscale_generate_code_def rgb_to_grayscale_def
        rgb_to_grayscale_batch_nth)
  from len run show ?thesis
    using gray_image_channels_equal [of ops img]
    by (simp add: gray_image_def luma_def)
qed

theorem random_grayscale_per_image_witness:
  "(0 :: nat) < length [[[(100, 200, 50), (0, 0, 7)]], [[(0, 0, 7), (255, 255, 255)]] :: image]
   \<and> (1 :: nat) < length [[[(100, 200, 50), (0, 0, 7)]], [[(0, 0, 7), (255, 255, 255)]] :: image]
   \<and> fst (run (RandomGrayscale_generate_code exact (RandomGrayscale_init 0.1))
        (\<lambda>i. if i = 0 then 0.05 else 0.5)
        (\<lambda>_. [[[(100, 200, 50), (0, 0, 7)]], [[(0, 0, 7), (255, 255, 255)]]]) 0) 0 ! 0
       = [[(152, 152, 152), (0, 0, 0)]]
   \<and> fst (run (RandomGrayscale_generate_code exact (RandomGrayscale_init 0.1))
        (\<lambda>i. if i = 0 then 0.05 else 0.5)
        (\<lambda>_. [[[(100, 200, 50), (0, 0, 7)]], [[(0, 0, 7), (255, 255, 255)]]]) 0) 0 ! 1
       = [[(0, 0, 7), (255, 255, 255)]]"
proof -
  let ?rand = "\<lambda>i :: nat. if i = 0 then 0.05 else 0.5 :: real"
  let ?b = "[[[(100, 200, 50), (0, 0, 7)]], [[(0, 0, 7), (255, 255, 255)]]] :: batch"
  note th0 = random_grayscale_per_image
    [where ops = exact and rg = "RandomGrayscale_init 0.1" and rand = ?rand
       and \<sigma> = "\<lambda>_. ?b" and images = 0 and i = 0]
  note th1 = random_grayscale_per_image
    [where ops = exact and rg = "RandomGrayscale_init 0.1" and rand = ?rand
       and \<sigma> = "\<lambda>_. ?b" and images = 0 and i = 1]
  have g: "gray_image exact [[(100, 200, 50), (0, 0, 7)]] = [[(152, 152, 152), (0, 0, 0)]]"
    by (simp add: gray_image_def luma_def exact_simps)
  have p: "flt exact (?rand 0) (RandomGrayscale_p (RandomGrayscale_init 0.1))"
          "\<not> flt exact (?rand 1) (RandomGrayscale_p (RandomGrayscale_init 0.1))"
    by (simp_all add: exact_simps RandomGrayscale_init_def)
  have i0: "(0 :: nat) < length ((\<lambda>_. ?b) (0 :: nat))" and i1: "(1 :: nat) < length ((\<lambda>_. ?b) (0 :: nat))"
    by simp_all
  from th0 i0 p(1) have
    "fst (run (RandomGrayscale_generate_code exact (RandomGrayscale_init 0.1)) ?rand
            (\<lambda>_. ?b) 0) 0 ! 0 = gray_image exact ((\<lambda>_. ?b) (0 :: nat) ! 0)"
    by (simp only: if_True simp_thms)
  then have a: "fst (run (RandomGrayscale_generate_code exact (RandomGrayscale_init 0.1)) ?rand
            (\<lambda>_. ?b) 0) 0 ! 0 = [[(152, 152, 152), (0, 0, 0)]]"
    using g by simp
  from th1 i1 p(2) have
    "fst (run (RandomGrayscale_generate_code exact (RandomGrayscale_init 0.1)) ?rand
            (\<lambda>_. ?b) 0) 0 ! 1 = (\<lambda>_. ?b) (0 :: nat) ! 1"
    by (simp only: if_False simp_thms)
  then have b: "fst (run (RandomGrayscale_generate_code exact (RandomGrayscale_init 0.1)) ?rand
            (\<lambda>_. ?b) 0) 0 ! 1 = [[(0, 0, 7), (255, 255, 255)]]"
    by simp
  from a b show ?thesis
    by simp
qed

end
